theory Spec2Isabelle
  imports Main
begin

section \<open>FireGen: the job record, the record store and the clock\<close>

text \<open>
  The orchestrator (\<^verbatim>\<open>job-orchestrator.ts\<close>) and the polling helpers
  (\<^verbatim>\<open>poller.ts\<close>) talk to the outside only through a handful of calls: partial
  updates and whole-node writes on a Realtime Database reference, the model adapter's
  \<^verbatim>\<open>start\<close>, the signed-URL generator, the task queue, the prompt analyzer and
  \<^verbatim>\<open>Date.now()\<close>. The embedding threads a world through every function: the
  database (path to node), the chronological trace of external calls, and the number of
  clock readings taken so far. Logger calls have no effect on the job record and
  are left out.
\<close>

subsection \<open>Values\<close>

text \<open>
  Request and response payloads are opaque JSON for the orchestrator. Numbers are
  modelled as unbounded integers (millisecond timestamps and counters stay far below
  the range where a JavaScript number stops being exact).
\<close>

datatype json =
    JNull
  | JBool bool
  | JNum int
  | JStr string
  | JArr "json list"
  | JObj "(string \<times> json) list"

text \<open>JavaScript truthiness, as used by \<^verbatim>\<open>if (x)\<close>, \<^verbatim>\<open>!x\<close> and \<^verbatim>\<open>x || y\<close>;
  \<open>None\<close> stands for \<^verbatim>\<open>undefined\<close>.\<close>

fun truthy_str :: "string option \<Rightarrow> bool" where
  "truthy_str None = False"
| "truthy_str (Some s) = (s \<noteq> [])"

fun truthy_num :: "int option \<Rightarrow> bool" where
  "truthy_num None = False"
| "truthy_num (Some n) = (n \<noteq> 0)"

fun truthy_json :: "json option \<Rightarrow> bool" where
  "truthy_json None = False"
| "truthy_json (Some JNull) = False"
| "truthy_json (Some (JBool b)) = b"
| "truthy_json (Some (JNum n)) = (n \<noteq> 0)"
| "truthy_json (Some (JStr s)) = (s \<noteq> [])"
| "truthy_json (Some (JArr xs)) = True"
| "truthy_json (Some (JObj kvs)) = True"

subsection \<open>The job record\<close>

datatype status = Requested | Starting | Running | Succeeded | Failed | Expired | Canceled

record file_info =
  f_name :: string
  f_gs :: string
  f_https :: string
  f_mimeType :: "string option"
  f_size :: "int option"

text \<open>\<open>e_details\<close> records whether the \<^verbatim>\<open>details\<close> object is written and the error
  name in it; the stack text beside it is engine-generated and not modelled.\<close>

record job_error =
  e_code :: string
  e_message :: string
  e_details :: "string option"

record assisted_info =
  a_prompt :: string
  a_reasons :: "string list"

record job_metadata =
  m_version :: "string option"
  m_createdAt :: "int option"
  m_updatedAt :: "int option"
  m_operation :: "string option"
  m_ttl :: "int option"
  m_attempt :: "int option"
  m_nextPoll :: "int option"
  m_lastError :: "int option"

text \<open>
  A database node holds whatever children were written to it, so every field is
  optional; a node with no children does not exist. The \<^verbatim>\<open>JobNode\<close> value handed to
  \<^verbatim>\<open>startJob\<close> is a snapshot of such a node.
\<close>

record job_node =
  j_uid :: "string option"
  j_model :: "string option"
  j_status :: "status option"
  j_request :: "json option"
  j_assisted :: "assisted_info option"
  j_response :: "json option"
  j_files :: "file_info list option"
  j_error :: "job_error option"
  j_metadata :: job_metadata

definition empty_metadata :: job_metadata where
  "empty_metadata = \<lparr>m_version = None, m_createdAt = None, m_updatedAt = None,
     m_operation = None, m_ttl = None, m_attempt = None, m_nextPoll = None,
     m_lastError = None\<rparr>"

definition empty_node :: job_node where
  "empty_node = \<lparr>j_uid = None, j_model = None, j_status = None, j_request = None,
     j_assisted = None, j_response = None, j_files = None, j_error = None,
     j_metadata = empty_metadata\<rparr>"

subsection \<open>Writes\<close>

text \<open>
  One constructor per key that the sources pass to \<^verbatim>\<open>update\<close>:
  \<^verbatim>\<open>status\<close>, \<^verbatim>\<open>response\<close>, \<^verbatim>\<open>files\<close>, \<^verbatim>\<open>error\<close> and the
  \<^verbatim>\<open>metadata/...\<close> paths. A write carries a defined value; a key whose value
  is \<^verbatim>\<open>undefined\<close> is an \<open>Undefined\<close> entry of the argument (below) and never
  becomes a write.
\<close>

datatype field_write =
    WStatus status
  | WResponse json
  | WFiles "file_info list"
  | WError job_error
  | WUpdatedAt int
  | WOperation string
  | WTtl int
  | WAttempt int
  | WNextPoll int
  | WLastError int

fun apply_write :: "job_node \<Rightarrow> field_write \<Rightarrow> job_node" where
  "apply_write j (WStatus s) = j\<lparr>j_status := Some s\<rparr>"
| "apply_write j (WResponse r) = j\<lparr>j_response := Some r\<rparr>"
| "apply_write j (WFiles fs) = j\<lparr>j_files := Some fs\<rparr>"
| "apply_write j (WError e) = j\<lparr>j_error := Some e\<rparr>"
| "apply_write j (WUpdatedAt t) = j\<lparr>j_metadata := (j_metadata j)\<lparr>m_updatedAt := Some t\<rparr>\<rparr>"
| "apply_write j (WOperation h) = j\<lparr>j_metadata := (j_metadata j)\<lparr>m_operation := Some h\<rparr>\<rparr>"
| "apply_write j (WTtl t) = j\<lparr>j_metadata := (j_metadata j)\<lparr>m_ttl := Some t\<rparr>\<rparr>"
| "apply_write j (WAttempt n) = j\<lparr>j_metadata := (j_metadata j)\<lparr>m_attempt := Some n\<rparr>\<rparr>"
| "apply_write j (WNextPoll t) = j\<lparr>j_metadata := (j_metadata j)\<lparr>m_nextPoll := Some t\<rparr>\<rparr>"
| "apply_write j (WLastError t) = j\<lparr>j_metadata := (j_metadata j)\<lparr>m_lastError := Some t\<rparr>\<rparr>"

definition apply_writes :: "field_write list \<Rightarrow> job_node \<Rightarrow> job_node" where
  "apply_writes ws j = foldl apply_write j ws"

text \<open>The argument of an \<^verbatim>\<open>update\<close> call, key by key in source order: a key with
  a defined value, or a key (named by its path) whose value is \<^verbatim>\<open>undefined\<close>.\<close>

datatype entry = Defined field_write | Undefined string

fun undefined_keys :: "entry list \<Rightarrow> string list" where
  "undefined_keys [] = []"
| "undefined_keys (Defined fw # es) = undefined_keys es"
| "undefined_keys (Undefined k # es) = k # undefined_keys es"

fun defined_writes :: "entry list \<Rightarrow> field_write list" where
  "defined_writes [] = []"
| "defined_writes (Defined fw # es) = fw # defined_writes es"
| "defined_writes (Undefined k # es) = defined_writes es"

subsection \<open>The world and the environment\<close>

datatype event =
    EvUpdate string "field_write list"
  | EvSet string job_node
  | EvStart "string option" "json option" string
  | EvSign string
  | EvEnqueue string string int int
  | EvAnalyze string string
  | EvRejected string string

record world =
  store :: "string \<Rightarrow> job_node"
  trace :: "event list"
  tick :: nat

text \<open>What a \<^verbatim>\<open>throw\<close> can carry, as far as the two \<^verbatim>\<open>catch\<close> blocks tell
  values apart: a \<^verbatim>\<open>ZodError\<close> (its issues and its message), another \<^verbatim>\<open>Error\<close>
  (name and message), or a value that is no \<^verbatim>\<open>Error\<close>, with a string
  \<^verbatim>\<open>message\<close> property or without one.\<close>

record zod_issue =
  z_path :: "string list"
  z_message :: string

datatype exn =
    ZodError "zod_issue list" string
  | JsError string string
  | Thrown "string option"

record model_output =
  out_uri :: "string option"
  out_mimeType :: "string option"
  out_size :: "int option"
  out_text :: "string option"

record start_result =
  sr_operationName :: "string option"
  sr_output :: "model_output option"
  sr_rawResponse :: "json option"

text \<open>The analyzer's result; its \<^verbatim>\<open>request\<close> is an object, given by its fields.\<close>

record analyzed =
  an_model :: string
  an_request :: "(string \<times> json) list"
  an_reasons :: "string list"

text \<open>
  The environment holds what the sources import and do not define: the constants of
  \<^verbatim>\<open>config.ts\<close>, the registry (\<^verbatim>\<open>isValidModelId\<close>, and \<^verbatim>\<open>getModelAdapter\<close>
  followed by the adapter's \<^verbatim>\<open>start\<close>), \<^verbatim>\<open>generateSignedUrl\<close>,
  \<^verbatim>\<open>assistedRequest\<close>, the process variable \<^verbatim>\<open>EXT_INSTANCE_ID\<close> and the
  successive readings of \<^verbatim>\<open>Date.now()\<close>.

  The database client (firebase-admin) validates the argument of \<^verbatim>\<open>update\<close> and
  \<^verbatim>\<open>set\<close> before anything is sent: when a property of the argument holds
  \<^verbatim>\<open>undefined\<close> the call throws an \<^verbatim>\<open>Error\<close> and nothing is written;
  \<open>reject_message\<close> is the message of that error, given the path and the property.
  Two calls of the sources can pass \<^verbatim>\<open>undefined\<close>: the success write of
  \<^verbatim>\<open>startJob\<close> (\<^verbatim>\<open>files\<close>) and the failure record of
  \<^verbatim>\<open>analyzeAndTransformJob\<close> (\<^verbatim>\<open>error.details\<close>); they are modelled by
  \<open>jobRef_update\<close> and \<open>jobRef_set\<close>. Every other call passes defined values
  only and is written as \<open>db_update\<close> or \<open>db_set\<close>, the write that lands. Apart
  from this validation, database and queue calls are taken to succeed.
\<close>

record env =
  JOB_TTL_MS :: int
  POLL_INTERVAL_MS :: int
  EXT_INSTANCE_ID :: "string option"
  clock :: "nat \<Rightarrow> int"
  isValidModelId :: "string option \<Rightarrow> bool"
  adapter_start :: "string option \<Rightarrow> json option \<Rightarrow> string \<Rightarrow> exn + start_result"
  generateSignedUrl :: "string \<Rightarrow> exn + string option"
  assistedRequest :: "string \<Rightarrow> string \<Rightarrow> exn + analyzed"
  reject_message :: "string \<Rightarrow> string \<Rightarrow> string"

definition date_now :: "env \<Rightarrow> world \<Rightarrow> int \<times> world" where
  "date_now en w = (clock en (tick w), w\<lparr>tick := Suc (tick w)\<rparr>)"

definition emit :: "event \<Rightarrow> world \<Rightarrow> world" where
  "emit ev w = w\<lparr>trace := trace w @ [ev]\<rparr>"

definition db_update :: "string \<Rightarrow> field_write list \<Rightarrow> world \<Rightarrow> world" where
  "db_update path ws w =
     emit (EvUpdate path ws) (w\<lparr>store := (store w)(path := apply_writes ws (store w path))\<rparr>)"

definition db_set :: "string \<Rightarrow> job_node \<Rightarrow> world \<Rightarrow> world" where
  "db_set path node w = emit (EvSet path node) (w\<lparr>store := (store w)(path := node)\<rparr>)"

text \<open>\<^verbatim>\<open>jobRef.update(...)\<close> on an argument that may hold \<^verbatim>\<open>undefined\<close>: the
  first such property makes the client throw, and the rejected call is recorded in the
  trace; otherwise the defined writes land.\<close>

definition jobRef_update ::
  "env \<Rightarrow> string \<Rightarrow> entry list \<Rightarrow> world \<Rightarrow> (exn + unit) \<times> world" where
  "jobRef_update en path es w =
     (case undefined_keys es of
        [] \<Rightarrow> (Inr (), db_update path (defined_writes es) w)
      | k # ks \<Rightarrow>
          (Inl (JsError ''Error'' (reject_message en path k)), emit (EvRejected path k) w))"

text \<open>\<^verbatim>\<open>jobRef.set(...)\<close> of a node; \<open>undef\<close> lists the properties of the
  argument that hold \<^verbatim>\<open>undefined\<close> (in \<open>node\<close> they have no value).\<close>

definition jobRef_set ::
  "env \<Rightarrow> string \<Rightarrow> job_node \<Rightarrow> string list \<Rightarrow> world \<Rightarrow> (exn + unit) \<times> world" where
  "jobRef_set en path node undef w =
     (case undef of
        [] \<Rightarrow> (Inr (), db_set path node w)
      | k # ks \<Rightarrow>
          (Inl (JsError ''Error'' (reject_message en path k)), emit (EvRejected path k) w))"

definition new_events :: "world \<Rightarrow> world \<Rightarrow> event list" where
  "new_events w w' = drop (length (trace w)) (trace w')"

section \<open>version.ts\<close>

definition FIREGEN_VERSION :: string where
  "FIREGEN_VERSION = ''0.3.3''"

section \<open>poller.ts\<close>

definition ceil_div_1000 :: "int \<Rightarrow> int" where
  "ceil_div_1000 d = - ((- d) div 1000)"

definition enqueuePollTask :: "env \<Rightarrow> string \<Rightarrow> int \<Rightarrow> world \<Rightarrow> world" where
  "enqueuePollTask en jobId delayMs w =
     (let jobPath = ''firegen-jobs/'' @ jobId;
          extensionId = (if truthy_str (EXT_INSTANCE_ID en) then the (EXT_INSTANCE_ID en)
                         else ''firegen'')
      in emit (EvEnqueue extensionId jobPath (ceil_div_1000 delayMs) 60) w)"

text \<open>\<open>now\<close> is the value \<^verbatim>\<open>Date.now()\<close> returns inside the call.\<close>

definition isJobExpired :: "int \<Rightarrow> job_node \<Rightarrow> bool" where
  "isJobExpired now job =
     (if \<not> truthy_num (m_ttl (j_metadata job)) then False
      else now > the (m_ttl (j_metadata job)))"

definition isJobTerminal :: "job_node \<Rightarrow> bool" where
  "isJobTerminal job = (j_status job \<in> Some ` set [Succeeded, Failed, Expired, Canceled])"

definition initializeJobMetadata :: "env \<Rightarrow> world \<Rightarrow> job_metadata \<times> world" where
  "initializeJobMetadata en w0 =
     (let (now, w1) = date_now en w0
      in (\<lparr>m_version = Some FIREGEN_VERSION, m_createdAt = Some now,
            m_updatedAt = Some now, m_operation = None, m_ttl = Some (now + JOB_TTL_MS en),
            m_attempt = Some 0, m_nextPoll = Some (now + POLL_INTERVAL_MS en),
            m_lastError = None\<rparr>, w1))"

definition incrementPollAttempt :: "env \<Rightarrow> string \<Rightarrow> int \<Rightarrow> world \<Rightarrow> world" where
  "incrementPollAttempt en jobPath currentAttempt w0 =
     (let (t1, w1) = date_now en w0;
          (t2, w2) = date_now en w1
      in db_update jobPath
           [WAttempt (currentAttempt + 1), WNextPoll (t1 + POLL_INTERVAL_MS en),
            WUpdatedAt t2] w2)"

definition recordPollError :: "env \<Rightarrow> string \<Rightarrow> int \<Rightarrow> world \<Rightarrow> world" where
  "recordPollError en jobPath currentAttempt w0 =
     (let (t1, w1) = date_now en w0;
          (t2, w2) = date_now en w1;
          (t3, w3) = date_now en w2
      in db_update jobPath
           [WAttempt (currentAttempt + 1), WNextPoll (t1 + POLL_INTERVAL_MS en),
            WLastError t2, WUpdatedAt t3] w3)"

section \<open>job-orchestrator.ts\<close>

subsection \<open>getFileExtension\<close>

definition is_alnum :: "char \<Rightarrow> bool" where
  "is_alnum c =
     (let n = (of_char c :: nat)
      in (48 \<le> n \<and> n \<le> 57) \<or> (65 \<le> n \<and> n \<le> 90) \<or> (97 \<le> n \<and> n \<le> 122))"

text \<open>The match of \<^verbatim>\<open>/\.([a-z0-9]+)$/i\<close>: the leftmost dot that is followed, up to
  the end of the string, by one or more letters and digits; the result is group 1.\<close>

fun regex_ext :: "string \<Rightarrow> string option" where
  "regex_ext [] = None"
| "regex_ext (c # cs) =
     (if c = CHR ''.'' \<and> cs \<noteq> [] \<and> list_all is_alnum cs then Some cs else regex_ext cs)"

definition typeMap :: "string \<Rightarrow> string option" where
  "typeMap = map_of
     [(''video/mp4'', ''.mp4''),
      (''image/png'', ''.png''),
      (''image/jpeg'', ''.jpg''),
      (''audio/wav'', ''.wav''),
      (''audio/mpeg'', ''.mp3'')]"

text \<open>\<^verbatim>\<open>typeMap\<close> is an object literal, so \<^verbatim>\<open>typeMap[mimeType]\<close> also finds
  the properties inherited from \<^verbatim>\<open>Object.prototype\<close>. Their values are functions
  (an object for \<^verbatim>\<open>__proto__\<close>), all truthy; the table gives the text that the
  template literal \<^verbatim>\<open>`file0${ext}`\<close> renders for each (as Node prints it).\<close>

definition inherited :: "string \<Rightarrow> string option" where
  "inherited = map_of
     [(''constructor'', ''function Object() { [native code] }''),
      (''__defineGetter__'', ''function __defineGetter__() { [native code] }''),
      (''__defineSetter__'', ''function __defineSetter__() { [native code] }''),
      (''hasOwnProperty'', ''function hasOwnProperty() { [native code] }''),
      (''__lookupGetter__'', ''function __lookupGetter__() { [native code] }''),
      (''__lookupSetter__'', ''function __lookupSetter__() { [native code] }''),
      (''isPrototypeOf'', ''function isPrototypeOf() { [native code] }''),
      (''propertyIsEnumerable'', ''function propertyIsEnumerable() { [native code] }''),
      (''toString'', ''function toString() { [native code] }''),
      (''valueOf'', ''function valueOf() { [native code] }''),
      (''__proto__'', ''[object Object]''),
      (''toLocaleString'', ''function toLocaleString() { [native code] }'')]"

text \<open>The result is the text that the only caller appends to \<^verbatim>\<open>file0\<close>.\<close>

definition getFileExtension :: "string option \<Rightarrow> string option \<Rightarrow> string" where
  "getFileExtension uri mimeType =
     (case (if truthy_str uri then regex_ext (the uri) else None) of
        Some m \<Rightarrow> ''.'' @ m
      | None \<Rightarrow>
          (if truthy_str mimeType
           then (case typeMap (the mimeType) of
                   Some e \<Rightarrow> e
                 | None \<Rightarrow>
                     (case inherited (the mimeType) of Some t \<Rightarrow> t | None \<Rightarrow> ''''))
           else ''''))"

subsection \<open>startJob\<close>

fun join_str :: "string \<Rightarrow> string list \<Rightarrow> string" where
  "join_str sep [] = ''''"
| "join_str sep [x] = x"
| "join_str sep (x # y # ys) = x @ sep @ join_str sep (y # ys)"

definition show_model_id :: "string option \<Rightarrow> string" where
  "show_model_id m = (case m of None \<Rightarrow> ''undefined'' | Some s \<Rightarrow> s)"

text \<open>The \<^verbatim>\<open>files\<close> array of the synchronous branch: empty without a truthy
  \<^verbatim>\<open>output.uri\<close>, else the one entry built around the signed URL.\<close>

definition build_files :: "env \<Rightarrow> model_output \<Rightarrow> world \<Rightarrow> (exn + file_info list) \<times> world" where
  "build_files en out w0 =
     (if truthy_str (out_uri out) then
        (let ext = getFileExtension (out_uri out) (out_mimeType out);
             filename = ''file0'' @ ext;
             w1 = emit (EvSign (the (out_uri out))) w0
         in case generateSignedUrl en (the (out_uri out)) of
              Inl err \<Rightarrow> (Inl err, w1)
            | Inr signedUrl \<Rightarrow>
                (Inr [\<lparr>f_name = filename,
                       f_gs = the (out_uri out),
                       f_https = (if truthy_str signedUrl then the signedUrl else ''''),
                       f_mimeType = (if truthy_str (out_mimeType out) then out_mimeType out
                                     else None),
                       f_size = out_size out\<rparr>], w1))
      else (Inr [], w0))"

text \<open>The body of the \<^verbatim>\<open>try\<close> block: \<open>Inl\<close> is a throw, \<open>Inr\<close> normal completion.\<close>

definition startJob_try ::
  "env \<Rightarrow> string \<Rightarrow> string \<Rightarrow> job_node \<Rightarrow> world \<Rightarrow> (exn + unit) \<times> world" where
  "startJob_try en jobId jobPath job w0 =
     (let (t1, w1) = date_now en w0;
          w2 = db_update jobPath [WStatus Starting, WUpdatedAt t1] w1;
          modelId = j_model job
      in if \<not> isValidModelId en modelId
         then (Inl (JsError ''Error'' (''Unknown model ID: '' @ show_model_id modelId)), w2)
         else
           (let w3 = emit (EvStart modelId (j_request job) jobId) w2
            in case adapter_start en modelId (j_request job) jobId of
                 Inl err \<Rightarrow> (Inl err, w3)
               | Inr result \<Rightarrow>
                   if truthy_str (sr_operationName result) then
                     (let (now, w4) = date_now en w3;
                          w5 = db_update jobPath
                                 [WStatus Running,
                                  WUpdatedAt now,
                                  WOperation (the (sr_operationName result)),
                                  WTtl (now + JOB_TTL_MS en),
                                  WAttempt 0,
                                  WNextPoll (now + POLL_INTERVAL_MS en)] w4
                      in (Inr (), enqueuePollTask en jobId (POLL_INTERVAL_MS en) w5))
                   else
                     (case sr_output result of
                        Some out \<Rightarrow>
                          (case build_files en out w3 of
                             (Inl err, w4) \<Rightarrow> (Inl err, w4)
                           | (Inr files, w4) \<Rightarrow>
                               (let (t2, w5) = date_now en w4
                                in jobRef_update en jobPath
                                     [Defined (WStatus Succeeded),
                                      Defined (WResponse (if truthy_json (sr_rawResponse result)
                                                 then the (sr_rawResponse result) else JObj [])),
                                      (if length files > 0 then Defined (WFiles files)
                                       else Undefined ''files''),
                                      Defined (WUpdatedAt t2)] w5))
                      | None \<Rightarrow>
                          (Inl (JsError ''Error'' ''Model adapter returned invalid result''), w3))))"

definition startJob_catch :: "env \<Rightarrow> string \<Rightarrow> exn \<Rightarrow> world \<Rightarrow> world" where
  "startJob_catch en jobPath err w0 =
     (let (message, code) =
            (case err of
               ZodError issues zm \<Rightarrow>
                 (''Validation failed: '' @
                    join_str '', '' (map (\<lambda>e. join_str ''.'' (z_path e) @ '': '' @ z_message e) issues),
                  ''VALIDATION_ERROR'')
             | JsError nm m \<Rightarrow> (m, ''START_FAILED'')
             | Thrown (Some m) \<Rightarrow> (m, ''START_FAILED'')
             | Thrown None \<Rightarrow> (''Start failed'', ''START_FAILED''));
          (t, w1) = date_now en w0
      in db_update jobPath
           [WStatus Failed,
            WError \<lparr>e_code = code, e_message = message, e_details = None\<rparr>,
            WUpdatedAt t] w1)"

definition startJob :: "env \<Rightarrow> string \<Rightarrow> job_node \<Rightarrow> world \<Rightarrow> world" where
  "startJob en jobId job w0 =
     (let jobPath = ''firegen-jobs/'' @ jobId
      in case startJob_try en jobId jobPath job w0 of
           (Inr u, w) \<Rightarrow> w
         | (Inl err, w) \<Rightarrow> startJob_catch en jobPath err w)"

subsection \<open>analyzeAndTransformJob\<close>

text \<open>\<^verbatim>\<open>err instanceof Error\<close>.\<close>

fun is_Error :: "exn \<Rightarrow> bool" where
  "is_Error (ZodError issues zm) = True"
| "is_Error (JsError nm m) = True"
| "is_Error (Thrown m) = False"

text \<open>The \<^verbatim>\<open>catch\<close> block. Its \<^verbatim>\<open>set\<close> call is not guarded: when the client
  rejects the record, the exception leaves \<^verbatim>\<open>analyzeAndTransformJob\<close>.\<close>

definition analyze_catch ::
  "env \<Rightarrow> string \<Rightarrow> string \<Rightarrow> string \<Rightarrow> exn \<Rightarrow> world \<Rightarrow> (exn + unit) \<times> world" where
  "analyze_catch en prompt uid jobRef err w0 =
     (let message =
            (case err of
               ZodError issues zm \<Rightarrow> zm
             | JsError nm m \<Rightarrow> m
             | Thrown (Some m) \<Rightarrow> m
             | Thrown None \<Rightarrow> ''AI analysis failed'');
          (now, w1) = date_now en w0
      in jobRef_set en jobRef
           \<lparr>j_uid = Some uid,
            j_model = Some ''unknown'',
            j_status = Some Failed,
            j_request = Some (JObj []),
            j_assisted = Some \<lparr>a_prompt = prompt, a_reasons = []\<rparr>,
            j_response = None,
            j_files = None,
            j_error = Some \<lparr>e_code = ''AI_ANALYSIS_FAILED'',
                             e_message = ''AI analysis failed: '' @ message,
                             e_details = (case err of
                                            ZodError issues zm \<Rightarrow> Some ''ZodError''
                                          | JsError nm m \<Rightarrow> Some nm
                                          | Thrown m \<Rightarrow> None)\<rparr>,
            j_metadata = \<lparr>m_version = Some FIREGEN_VERSION, m_createdAt = Some now,
                           m_updatedAt = Some now, m_operation = None, m_ttl = None,
                           m_attempt = None, m_nextPoll = None, m_lastError = None\<rparr>\<rparr>
           (if is_Error err then [] else [''error/details'']) w1)"

text \<open>\<open>Inr\<close> is normal completion; \<open>Inl\<close> is an exception that escapes the
  function.\<close>

definition analyzeAndTransformJob ::
  "env \<Rightarrow> string \<Rightarrow> string \<Rightarrow> string \<Rightarrow> string \<Rightarrow> world \<Rightarrow> (exn + unit) \<times> world" where
  "analyzeAndTransformJob en jobId prompt uid jobRef w0 =
     (let w1 = emit (EvAnalyze prompt jobId) w0
      in case assistedRequest en prompt jobId of
           Inl err \<Rightarrow> analyze_catch en prompt uid jobRef err w1
         | Inr an \<Rightarrow>
             (let (now, w2) = date_now en w1;
                  completeJob =
                    \<lparr>j_uid = Some uid,
                     j_model = Some (an_model an),
                     j_status = Some Requested,
                     j_request = Some (JObj (an_request an)),
                     j_assisted = Some \<lparr>a_prompt = prompt, a_reasons = an_reasons an\<rparr>,
                     j_response = None,
                     j_files = None,
                     j_error = None,
                     j_metadata = \<lparr>m_version = Some FIREGEN_VERSION, m_createdAt = Some now,
                                    m_updatedAt = Some now, m_operation = None,
                                    m_ttl = Some (now + JOB_TTL_MS en), m_attempt = Some 0,
                                    m_nextPoll = Some (now + POLL_INTERVAL_MS en),
                                    m_lastError = None\<rparr>\<rparr>;
                  w3 = db_set jobRef completeJob w2
              in (Inr (), startJob en jobId completeJob w3)))"

section \<open>Observations on traces\<close>

fun is_start :: "event \<Rightarrow> bool" where
  "is_start (EvStart m r j) = True"
| "is_start ev = False"

definition count_starts :: "event list \<Rightarrow> nat" where
  "count_starts evs = length (filter is_start evs)"

fun is_poll_field :: "field_write \<Rightarrow> bool" where
  "is_poll_field (WTtl t) = True"
| "is_poll_field (WNextPoll t) = True"
| "is_poll_field fw = False"

text \<open>A write that carries \<^verbatim>\<open>ttl\<close> or \<^verbatim>\<open>nextPoll\<close> also carries the status
  \<^verbatim>\<open>running\<close>: for an update, among its keys; for a whole-node write, in the node.
  The other events write nothing.\<close>

fun poll_fields_with_running :: "event \<Rightarrow> bool" where
  "poll_fields_with_running (EvUpdate p ws) =
     (if list_ex is_poll_field ws then WStatus Running \<in> set ws else True)"
| "poll_fields_with_running (EvSet p n) =
     (if m_ttl (j_metadata n) \<noteq> None \<or> m_nextPoll (j_metadata n) \<noteq> None
      then j_status n = Some Running else True)"
| "poll_fields_with_running ev = True"


section \<open>URL tagging codec of the assisted mode\<close>

text \<open>
  The codec lives in \<^verbatim>\<open>assisted-mode/\<close>, of which only the test fixtures are at
  hand. The definitions of this section are therefore written from the specification
  (section 2, and section 4.4, passes 1 and 4), not from code.
\<close>

text \<open>Modelled from the spec: the missing scanner's notion of white space; a reference
  embedded in free text ends at the next white space.\<close>

definition is_space :: "char \<Rightarrow> bool" where
  "is_space c = (c = CHR '' '' \<or> c = CHR 0x09 \<or> c = CHR 0x0A \<or> c = CHR 0x0D)"

text \<open>Modelled from the spec: the missing scanner of pass 1, which reads the text as its
  sequence of white-space-delimited words (\<open>cur\<close> holds the current word, reversed).\<close>

fun split_acc :: "string \<Rightarrow> string \<Rightarrow> string list" where
  "split_acc cur [] = (if cur = [] then [] else [rev cur])"
| "split_acc cur (c # cs) =
     (if is_space c
      then (if cur = [] then split_acc [] cs else rev cur # split_acc [] cs)
      else split_acc (c # cur) cs)"

text \<open>Modelled from the spec: the missing scanner of pass 1, from the start of the
  text.\<close>

definition split_words :: "string \<Rightarrow> string list" where
  "split_words s = split_acc [] s"

text \<open>Modelled from the spec: the missing detector of storage references. Only the
  object-store form \<^verbatim>\<open>gs://...\<close> is covered; it is its own canonical form. The
  HTTP forms, whose canonical form the specification leaves open, are not tagged.\<close>

definition is_gs_uri :: "string \<Rightarrow> bool" where
  "is_gs_uri w = (take 5 w = ''gs://'' \<and> length w > 5)"

text \<open>Modelled from the spec: the missing table from file extension to media type
  (\<^verbatim>\<open>.jpg\<close> gives \<^verbatim>\<open>image/jpeg\<close>, \<^verbatim>\<open>.png\<close> gives \<^verbatim>\<open>image/png\<close>). It is
  the table of \<open>typeMap\<close> read from extension to type.\<close>

definition mimeOfExtension :: "string \<Rightarrow> string option" where
  "mimeOfExtension = map_of
     [(''mp4'', ''video/mp4''),
      (''png'', ''image/png''),
      (''jpg'', ''image/jpeg''),
      (''wav'', ''audio/wav''),
      (''mp3'', ''audio/mpeg'')]"

text \<open>Modelled from the spec: the missing media-type inference, "inferred from the
  extension"; the extension is found as \<open>getFileExtension\<close> finds it, and an unknown
  or missing extension gives no type.\<close>

definition inferMimeType :: "string \<Rightarrow> string option" where
  "inferMimeType uri = (case regex_ext uri of None \<Rightarrow> None | Some e \<Rightarrow> mimeOfExtension e)"

text \<open>Modelled from the spec: the missing placeholder token, "an opaque placeholder
  token that encodes an index and the inferred media type".\<close>

datatype placeholder = Placeholder nat "string option"

text \<open>Modelled from the spec: the missing tagged text, a sequence of plain words and
  placeholders.\<close>

datatype item = Word string | Tag placeholder

text \<open>Modelled from the spec: the missing table of pass 1, one entry per distinct
  reference in order of first occurrence: the canonical URI and its media type.\<close>

type_synonym ref_table = "(string \<times> string option) list"

text \<open>Modelled from the spec: the missing deduplication, the position of the first
  occurrence of an element, counted from 0.\<close>

fun index_of :: "'a \<Rightarrow> 'a list \<Rightarrow> nat option" where
  "index_of x [] = None"
| "index_of x (y # ys) = (if x = y then Some 0 else map_option Suc (index_of x ys))"

text \<open>Modelled from the spec: the missing pass 1 (reference extraction and tagging).
  Each reference is replaced by a placeholder; repeats of a reference share the entry,
  and so the index, of its first occurrence. Indices count from 1.\<close>

fun tag_words :: "ref_table \<Rightarrow> string list \<Rightarrow> item list \<times> ref_table" where
  "tag_words tab [] = ([], tab)"
| "tag_words tab (w # ws) =
     (if is_gs_uri w then
        (case index_of w (map fst tab) of
           Some i \<Rightarrow>
             (let (items, tab') = tag_words tab ws
              in (Tag (Placeholder (Suc i) (inferMimeType w)) # items, tab'))
         | None \<Rightarrow>
             (let tab1 = tab @ [(w, inferMimeType w)];
                  (items, tab') = tag_words tab1 ws
              in (Tag (Placeholder (length tab1) (inferMimeType w)) # items, tab')))
      else
        (let (items, tab') = tag_words tab ws in (Word w # items, tab')))"

text \<open>Modelled from the spec: the missing entry point of pass 1, from the free text to
  the tagged text and the table.\<close>

definition tagUrls :: "string \<Rightarrow> item list \<times> ref_table" where
  "tagUrls s = tag_words [] (split_words s)"

text \<open>Modelled from the spec: the missing shape of the final structured request, as
  far as resolution looks at it: text, placeholders, media references (storage URI and
  media type), named fields and lists.\<close>

datatype sreq =
    SText string
  | SPlaceholder placeholder
  | SMedia string "string option"
  | SField string sreq
  | SList "sreq list"

text \<open>Modelled from the spec: the missing lookup of pass 4, from a placeholder to the
  storage URI and the media type recorded in pass 1.\<close>

fun resolvePlaceholder :: "ref_table \<Rightarrow> placeholder \<Rightarrow> (string \<times> string option) option" where
  "resolvePlaceholder tab (Placeholder i m) =
     (if 0 < i \<and> i \<le> length tab then Some (tab ! (i - 1)) else None)"

text \<open>Modelled from the spec: the missing pass 4 (placeholder resolution) on the final
  structured request: every placeholder is replaced by its storage URI with the media
  type recorded in pass 1. A placeholder without a table entry is left as it is.\<close>

fun resolveRequest :: "ref_table \<Rightarrow> sreq \<Rightarrow> sreq" where
  "resolveRequest tab (SText s) = SText s"
| "resolveRequest tab (SPlaceholder p) =
     (case resolvePlaceholder tab p of
        Some (uri, mime) \<Rightarrow> SMedia uri mime
      | None \<Rightarrow> SPlaceholder p)"
| "resolveRequest tab (SMedia uri mime) = SMedia uri mime"
| "resolveRequest tab (SField k v) = SField k (resolveRequest tab v)"
| "resolveRequest tab (SList vs) = SList (map (resolveRequest tab) vs)"

text \<open>The words of a tagged text with every placeholder resolved.\<close>

fun resolve_item :: "ref_table \<Rightarrow> item \<Rightarrow> string option" where
  "resolve_item tab (Word w) = Some w"
| "resolve_item tab (Tag p) = map_option fst (resolvePlaceholder tab p)"

text \<open>A request \<open>r\<close> contains \<open>x\<close> when \<open>x\<close> is \<open>r\<close> or sits in a field or list of it.\<close>

fun contains :: "sreq \<Rightarrow> sreq \<Rightarrow> bool" where
  "contains x (SField k v) = (x = SField k v \<or> contains x v)"
| "contains x (SList vs) = (x = SList vs \<or> list_ex (contains x) vs)"
| "contains x r = (x = r)"

subsection \<open>Auxiliary notions for the proofs about the codec\<close>

definition next_table :: "ref_table \<Rightarrow> string \<Rightarrow> ref_table" where
  "next_table tab w =
     (if is_gs_uri w \<and> index_of w (map fst tab) = None then tab @ [(w, inferMimeType w)] else tab)"

definition head_item :: "ref_table \<Rightarrow> string \<Rightarrow> item" where
  "head_item tab w =
     (if is_gs_uri w
      then Tag (Placeholder (case index_of w (map fst tab) of Some i \<Rightarrow> Suc i
                             | None \<Rightarrow> Suc (length tab)) (inferMimeType w))
      else Word w)"

definition table_ok :: "ref_table \<Rightarrow> bool" where
  "table_ok tab = list_all (\<lambda>e. snd e = inferMimeType (fst e)) tab"

definition tagged_as :: "ref_table \<Rightarrow> string \<Rightarrow> item \<Rightarrow> bool" where
  "tagged_as tab w it =
     (if is_gs_uri w
      then (case it of Tag p \<Rightarrow> resolvePlaceholder tab p = Some (w, inferMimeType w)
            | Word v \<Rightarrow> False)
      else it = Word w)"

section \<open>Example inputs\<close>

definition world0 :: world where
  "world0 = \<lparr>store = (\<lambda>p. empty_node), trace = [], tick = 0\<rparr>"

definition job_veo :: job_node where
  "job_veo = empty_node
     \<lparr>j_uid := Some ''user-123'',
      j_model := Some ''veo-3.1-fast-generate-preview'',
      j_status := Some Requested,
      j_request := Some (JObj [(''model'', JStr ''veo-3.1-fast-generate-preview'')])\<rparr>"

text \<open>An environment with a ninety-minute window, a one-second interval and an
  asynchronous adapter; the analyzer fails in it.\<close>

definition env_async :: env where
  "env_async =
     \<lparr>JOB_TTL_MS = 5400000,
      POLL_INTERVAL_MS = 1000,
      EXT_INSTANCE_ID = None,
      clock = (\<lambda>n. 1700000000000 + int n),
      isValidModelId = (\<lambda>m. m = Some ''veo-3.1-fast-generate-preview''),
      adapter_start = (\<lambda>m r j. Inr \<lparr>sr_operationName = Some ''operations/op-1'',
                                     sr_output = None, sr_rawResponse = None\<rparr>),
      generateSignedUrl = (\<lambda>u. Inr (Some (''https://signed.example/'' @ u))),
      assistedRequest = (\<lambda>p j. Inl (JsError ''Error'' ''model call failed'')),
      reject_message = (\<lambda>p k. ''contains undefined in property '' @ p @ ''/'' @ k)\<rparr>"

definition out_png :: model_output where
  "out_png = \<lparr>out_uri = Some ''gs://bucket/firegen-jobs/j1/image.png'',
              out_mimeType = Some ''image/png'', out_size = Some 1024, out_text = None\<rparr>"

definition env_both :: env where
  "env_both = env_async
     \<lparr>adapter_start := (\<lambda>m r j. Inr \<lparr>sr_operationName = Some ''operations/op-1'',
                                      sr_output = Some out_png, sr_rawResponse = None\<rparr>)\<rparr>"

definition env_none :: env where
  "env_none = env_async
     \<lparr>adapter_start := (\<lambda>m r j. Inr \<lparr>sr_operationName = None,
                                      sr_output = None, sr_rawResponse = None\<rparr>)\<rparr>"

definition env_sync :: env where
  "env_sync = env_async
     \<lparr>adapter_start := (\<lambda>m r j. Inr \<lparr>sr_operationName = None,
                                      sr_output = Some out_png, sr_rawResponse = None\<rparr>)\<rparr>"

definition env_assisted :: env where
  "env_assisted = env_async
     \<lparr>assistedRequest := (\<lambda>p j. Inr \<lparr>an_model = ''veo-3.1-fast-generate-preview'',
                                      an_request = [(''model'', JStr ''veo-3.1-fast-generate-preview'')],
                                      an_reasons = [''video requested'']\<rparr>)\<rparr>"

definition world_polling :: world where
  "world_polling = world0
     \<lparr>store := (\<lambda>p. empty_node)
        (''firegen-jobs/j1'' := job_veo
           \<lparr>j_status := Some Running,
            j_metadata := empty_metadata
              \<lparr>m_operation := Some ''operations/op-1'', m_ttl := Some 1700005400000,
               m_attempt := Some 3, m_nextPoll := Some 1700000001000\<rparr>\<rparr>)\<rparr>"

definition world_created :: world where
  "world_created = world0\<lparr>store := (\<lambda>p. empty_node)(''firegen-jobs/j1'' := job_veo)\<rparr>"

definition prompt_two_refs :: string where
  "prompt_two_refs =
     ''Blend gs://bucket/path/name.jpg with gs://bucket/other/name.png and gs://bucket/path/name.jpg''"

definition env_text :: env where
  "env_text = env_async
     \<lparr>adapter_start := (\<lambda>m r j. Inr \<lparr>sr_operationName = None,
          sr_output = Some \<lparr>out_uri = None, out_mimeType = None, out_size = None,
                            out_text = Some ''a short poem''\<rparr>,
          sr_rawResponse = Some (JObj [(''text'', JStr ''a short poem'')])\<rparr>)\<rparr>"

definition out_mismatch :: model_output where
  "out_mismatch = \<lparr>out_uri = Some ''gs://bucket/firegen-jobs/j1/image.png'',
                   out_mimeType = Some ''image/jpeg'', out_size = None, out_text = None\<rparr>"

definition out_noext :: model_output where
  "out_noext = \<lparr>out_uri = Some ''gs://bucket/firegen-jobs/j1/audio'',
                out_mimeType = Some ''audio/wav'', out_size = Some 2048, out_text = None\<rparr>"

definition env_mismatch :: env where
  "env_mismatch = env_async
     \<lparr>adapter_start := (\<lambda>m r j. Inr \<lparr>sr_operationName = None,
                                      sr_output = Some out_mismatch, sr_rawResponse = None\<rparr>)\<rparr>"

definition env_noext :: env where
  "env_noext = env_async
     \<lparr>adapter_start := (\<lambda>m r j. Inr \<lparr>sr_operationName = None,
                                      sr_output = Some out_noext, sr_rawResponse = None\<rparr>)\<rparr>"

definition env_thrown :: env where
  "env_thrown = env_async
     \<lparr>assistedRequest := (\<lambda>p j. Inl (Thrown (Some ''quota exceeded'')))\<rparr>"

section \<open>Basic facts about the world\<close>

lemma trace_emit [simp]: "trace (emit ev w) = trace w @ [ev]"
  and store_emit [simp]: "store (emit ev w) = store w"
  and tick_emit [simp]: "tick (emit ev w) = tick w"
  by (simp_all add: emit_def)

lemma trace_db_update [simp]: "trace (db_update p ws w) = trace w @ [EvUpdate p ws]"
  and store_db_update [simp]:
    "store (db_update p ws w) = (store w)(p := apply_writes ws (store w p))"
  and tick_db_update [simp]: "tick (db_update p ws w) = tick w"
  by (simp_all add: db_update_def)

lemma trace_db_set [simp]: "trace (db_set p n w) = trace w @ [EvSet p n]"
  and store_db_set [simp]: "store (db_set p n w) = (store w)(p := n)"
  and tick_db_set [simp]: "tick (db_set p n w) = tick w"
  by (simp_all add: db_set_def)

lemma new_events_append: "trace w' = trace w @ evs \<Longrightarrow> new_events w w' = evs"
  by (simp add: new_events_def)

lemmas startJob_defs = startJob_def startJob_try_def startJob_catch_def date_now_def
  enqueuePollTask_def build_files_def jobRef_update_def Let_def

lemma startJob_invalid_trace:
  assumes "\<not> isValidModelId en (j_model job)"
  shows "trace (startJob en jobId job w) = trace w @
     [EvUpdate (''firegen-jobs/'' @ jobId) [WStatus Starting, WUpdatedAt (clock en (tick w))],
      EvUpdate (''firegen-jobs/'' @ jobId)
        [WStatus Failed,
         WError \<lparr>e_code = ''START_FAILED'',
                 e_message = ''Unknown model ID: '' @ show_model_id (j_model job),
                 e_details = None\<rparr>,
         WUpdatedAt (clock en (Suc (tick w)))]]"
  using assms by (simp add: startJob_defs)

lemma startJob_invalid_store:
  assumes "\<not> isValidModelId en (j_model job)"
  shows "store (startJob en jobId job w) (''firegen-jobs/'' @ jobId) =
     (store w (''firegen-jobs/'' @ jobId))
       \<lparr>j_status := Some Failed,
        j_error := Some \<lparr>e_code = ''START_FAILED'',
                 e_message = ''Unknown model ID: '' @ show_model_id (j_model job),
                 e_details = None\<rparr>,
        j_metadata := (j_metadata (store w (''firegen-jobs/'' @ jobId)))
           \<lparr>m_updatedAt := Some (clock en (Suc (tick w)))\<rparr>\<rparr>"
  using assms by (simp add: startJob_defs apply_writes_def)

lemma startJob_async_trace:
  assumes "isValidModelId en (j_model job)"
    and "adapter_start en (j_model job) (j_request job) jobId = Inr res"
    and "sr_operationName res = Some h" and "h \<noteq> []"
  shows "trace (startJob en jobId job w) = trace w @
     [EvUpdate (''firegen-jobs/'' @ jobId) [WStatus Starting, WUpdatedAt (clock en (tick w))],
      EvStart (j_model job) (j_request job) jobId,
      EvUpdate (''firegen-jobs/'' @ jobId)
        [WStatus Running,
         WUpdatedAt (clock en (Suc (tick w))),
         WOperation h,
         WTtl (clock en (Suc (tick w)) + JOB_TTL_MS en),
         WAttempt 0,
         WNextPoll (clock en (Suc (tick w)) + POLL_INTERVAL_MS en)],
      EvEnqueue (if truthy_str (EXT_INSTANCE_ID en) then the (EXT_INSTANCE_ID en) else ''firegen'')
        (''firegen-jobs/'' @ jobId) (ceil_div_1000 (POLL_INTERVAL_MS en)) 60]"
  using assms by (simp add: startJob_defs)

lemma startJob_async_store:
  assumes "isValidModelId en (j_model job)"
    and "adapter_start en (j_model job) (j_request job) jobId = Inr res"
    and "sr_operationName res = Some h" and "h \<noteq> []"
  shows "store (startJob en jobId job w) (''firegen-jobs/'' @ jobId) =
     (store w (''firegen-jobs/'' @ jobId))
       \<lparr>j_status := Some Running,
        j_metadata := (j_metadata (store w (''firegen-jobs/'' @ jobId)))
           \<lparr>m_updatedAt := Some (clock en (Suc (tick w))),
            m_operation := Some h,
            m_ttl := Some (clock en (Suc (tick w)) + JOB_TTL_MS en),
            m_attempt := Some 0,
            m_nextPoll := Some (clock en (Suc (tick w)) + POLL_INTERVAL_MS en)\<rparr>\<rparr>"
  using assms by (simp add: startJob_defs apply_writes_def)

lemma startJob_trace_prefix:
  "\<exists>evs. trace (startJob en jobId job w) = trace w @ evs"
  by (simp add: startJob_defs split: sum.splits option.splits prod.splits)

lemma startJob_count_starts:
  "count_starts (trace (startJob en jobId job w)) =
     count_starts (trace w) + (if isValidModelId en (j_model job) then 1 else 0)"
  by (simp add: startJob_defs count_starts_def split: sum.splits option.splits prod.splits)

lemma startJob_status_irrelevant:
  "startJob en jobId (job\<lparr>j_status := s\<rparr>) w = startJob en jobId job w"
  by (simp add: startJob_def startJob_try_def date_now_def Let_def)

lemma startJob_invalid_result_store:
  assumes "isValidModelId en (j_model job)"
    and "adapter_start en (j_model job) (j_request job) jobId = Inr res"
    and "\<not> truthy_str (sr_operationName res)" and "sr_output res = None"
  shows "store (startJob en jobId job w) (''firegen-jobs/'' @ jobId) =
     (store w (''firegen-jobs/'' @ jobId))
       \<lparr>j_status := Some Failed,
        j_error := Some \<lparr>e_code = ''START_FAILED'',
                 e_message = ''Model adapter returned invalid result'',
                 e_details = None\<rparr>,
        j_metadata := (j_metadata (store w (''firegen-jobs/'' @ jobId)))
           \<lparr>m_updatedAt := Some (clock en (Suc (tick w)))\<rparr>\<rparr>"
  using assms by (simp add: startJob_defs apply_writes_def)

lemma startJob_media_trace:
  assumes "isValidModelId en (j_model job)"
    and "adapter_start en (j_model job) (j_request job) jobId = Inr res"
    and "\<not> truthy_str (sr_operationName res)" and "sr_output res = Some out"
    and "truthy_str (out_uri out)"
    and "generateSignedUrl en (the (out_uri out)) = Inr surl"
  shows "trace (startJob en jobId job w) = trace w @
     [EvUpdate (''firegen-jobs/'' @ jobId) [WStatus Starting, WUpdatedAt (clock en (tick w))],
      EvStart (j_model job) (j_request job) jobId,
      EvSign (the (out_uri out)),
      EvUpdate (''firegen-jobs/'' @ jobId)
        [WStatus Succeeded,
         WResponse (if truthy_json (sr_rawResponse res) then the (sr_rawResponse res) else JObj []),
         WFiles [\<lparr>f_name = ''file0'' @ getFileExtension (out_uri out) (out_mimeType out),
                  f_gs = the (out_uri out),
                  f_https = (if truthy_str surl then the surl else ''''),
                  f_mimeType = (if truthy_str (out_mimeType out) then out_mimeType out
                                else None),
                  f_size = out_size out\<rparr>],
         WUpdatedAt (clock en (Suc (tick w)))]]"
  using assms by (simp add: startJob_defs)

lemma startJob_no_media_trace:
  assumes "isValidModelId en (j_model job)"
    and "adapter_start en (j_model job) (j_request job) jobId = Inr res"
    and "\<not> truthy_str (sr_operationName res)" and "sr_output res = Some out"
    and "\<not> truthy_str (out_uri out)"
  shows "trace (startJob en jobId job w) = trace w @
     [EvUpdate (''firegen-jobs/'' @ jobId) [WStatus Starting, WUpdatedAt (clock en (tick w))],
      EvStart (j_model job) (j_request job) jobId,
      EvRejected (''firegen-jobs/'' @ jobId) ''files'',
      EvUpdate (''firegen-jobs/'' @ jobId)
        [WStatus Failed,
         WError \<lparr>e_code = ''START_FAILED'',
                 e_message = reject_message en (''firegen-jobs/'' @ jobId) ''files'',
                 e_details = None\<rparr>,
         WUpdatedAt (clock en (Suc (Suc (tick w))))]]"
  using assms by (simp add: startJob_defs)

lemma startJob_no_media_store:
  assumes "isValidModelId en (j_model job)"
    and "adapter_start en (j_model job) (j_request job) jobId = Inr res"
    and "\<not> truthy_str (sr_operationName res)" and "sr_output res = Some out"
    and "\<not> truthy_str (out_uri out)"
  shows "store (startJob en jobId job w) (''firegen-jobs/'' @ jobId) =
     (store w (''firegen-jobs/'' @ jobId))
       \<lparr>j_status := Some Failed,
        j_error := Some \<lparr>e_code = ''START_FAILED'',
                 e_message = reject_message en (''firegen-jobs/'' @ jobId) ''files'',
                 e_details = None\<rparr>,
        j_metadata := (j_metadata (store w (''firegen-jobs/'' @ jobId)))
           \<lparr>m_updatedAt := Some (clock en (Suc (Suc (tick w))))\<rparr>\<rparr>"
  using assms by (simp add: startJob_defs apply_writes_def)

lemma new_events_startJob_count:
  "count_starts (new_events w (startJob en jobId job w)) =
     (if isValidModelId en (j_model job) then 1 else 0)"
proof -
  obtain evs where e: "trace (startJob en jobId job w) = trace w @ evs"
    using startJob_trace_prefix by blast
  have "count_starts (trace w @ evs) = count_starts (trace w) + count_starts evs"
    by (simp add: count_starts_def)
  with e startJob_count_starts [of en jobId job w]
  have "count_starts evs = (if isValidModelId en (j_model job) then 1 else 0)"
    by simp
  with e show ?thesis by (simp add: new_events_def)
qed

lemma startJob_handle_store:
  assumes "isValidModelId en (j_model job)"
    and "adapter_start en (j_model job) (j_request job) jobId = Inr res"
    and "truthy_str (sr_operationName res)"
  shows "j_status (store (startJob en jobId job w) (''firegen-jobs/'' @ jobId)) = Some Running
       \<and> j_error (store (startJob en jobId job w) (''firegen-jobs/'' @ jobId)) =
           j_error (store w (''firegen-jobs/'' @ jobId))"
proof -
  from assms(3) obtain h where h: "sr_operationName res = Some h" "h \<noteq> []"
    by (cases "sr_operationName res") auto
  from startJob_async_store [OF assms(1,2) h, of w] show ?thesis
    by simp
qed

lemma startJob_poll_fields:
  "list_all poll_fields_with_running (new_events w (startJob en jobId job w))"
  by (simp add: startJob_defs new_events_def split: sum.splits option.splits prod.splits)

lemma startJob_keeps_ttl:
  "m_ttl (j_metadata (store w q)) \<noteq> None \<Longrightarrow>
   m_ttl (j_metadata (store (startJob en jobId job w) q)) \<noteq> None"
  by (auto simp: startJob_defs apply_writes_def split: sum.splits option.splits prod.splits)

lemma startJob_keeps_nextPoll:
  "m_nextPoll (j_metadata (store w q)) \<noteq> None \<Longrightarrow>
   m_nextPoll (j_metadata (store (startJob en jobId job w) q)) \<noteq> None"
  by (auto simp: startJob_defs apply_writes_def split: sum.splits option.splits prod.splits)

lemma analyze_success_prefix:
  assumes "assistedRequest en prompt jobId = Inr an"
  shows "take 2 (new_events w (snd (analyzeAndTransformJob en jobId prompt uid jobRef w))) =
     [EvAnalyze prompt jobId,
      EvSet jobRef
        \<lparr>j_uid = Some uid,
         j_model = Some (an_model an),
         j_status = Some Requested,
         j_request = Some (JObj (an_request an)),
         j_assisted = Some \<lparr>a_prompt = prompt, a_reasons = an_reasons an\<rparr>,
         j_response = None,
         j_files = None,
         j_error = None,
         j_metadata = \<lparr>m_version = Some FIREGEN_VERSION,
                        m_createdAt = Some (clock en (tick w)),
                        m_updatedAt = Some (clock en (tick w)), m_operation = None,
                        m_ttl = Some (clock en (tick w) + JOB_TTL_MS en), m_attempt = Some 0,
                        m_nextPoll = Some (clock en (tick w) + POLL_INTERVAL_MS en),
                        m_lastError = None\<rparr>\<rparr>]"
proof -
  let ?node = "\<lparr>j_uid = Some uid,
         j_model = Some (an_model an),
         j_status = Some Requested,
         j_request = Some (JObj (an_request an)),
         j_assisted = Some \<lparr>a_prompt = prompt, a_reasons = an_reasons an\<rparr>,
         j_response = None,
         j_files = None,
         j_error = None,
         j_metadata = \<lparr>m_version = Some FIREGEN_VERSION,
                        m_createdAt = Some (clock en (tick w)),
                        m_updatedAt = Some (clock en (tick w)), m_operation = None,
                        m_ttl = Some (clock en (tick w) + JOB_TTL_MS en), m_attempt = Some 0,
                        m_nextPoll = Some (clock en (tick w) + POLL_INTERVAL_MS en),
                        m_lastError = None\<rparr>\<rparr>"
  let ?w3 = "db_set jobRef ?node ((emit (EvAnalyze prompt jobId) w)\<lparr>tick := Suc (tick w)\<rparr>)"
  have eq: "snd (analyzeAndTransformJob en jobId prompt uid jobRef w) = startJob en jobId ?node ?w3"
    using assms by (simp add: analyzeAndTransformJob_def date_now_def Let_def)
  obtain evs where "trace (startJob en jobId ?node ?w3) = trace ?w3 @ evs"
    using startJob_trace_prefix by blast
  then have "trace (snd (analyzeAndTransformJob en jobId prompt uid jobRef w)) =
      trace w @ [EvAnalyze prompt jobId, EvSet jobRef ?node] @ evs"
    using eq by simp
  then show ?thesis by (simp add: new_events_def)
qed

lemmas analyze_defs = analyzeAndTransformJob_def analyze_catch_def jobRef_set_def date_now_def
  Let_def

lemma analyze_Error_result:
  assumes "assistedRequest en prompt jobId = Inl err" and "is_Error err"
  shows "fst (analyzeAndTransformJob en jobId prompt uid jobRef w) = Inr ()"
    and "new_events w (snd (analyzeAndTransformJob en jobId prompt uid jobRef w)) =
           [EvAnalyze prompt jobId,
            EvSet jobRef (store (snd (analyzeAndTransformJob en jobId prompt uid jobRef w)) jobRef)]"
    and "j_status (store (snd (analyzeAndTransformJob en jobId prompt uid jobRef w)) jobRef)
           = Some Failed"
    and "map_option e_code
           (j_error (store (snd (analyzeAndTransformJob en jobId prompt uid jobRef w)) jobRef))
           = Some ''AI_ANALYSIS_FAILED''"
    and "map_option a_prompt
           (j_assisted (store (snd (analyzeAndTransformJob en jobId prompt uid jobRef w)) jobRef))
           = Some prompt"
    and "m_ttl (j_metadata
           (store (snd (analyzeAndTransformJob en jobId prompt uid jobRef w)) jobRef)) = None"
    and "m_nextPoll (j_metadata
           (store (snd (analyzeAndTransformJob en jobId prompt uid jobRef w)) jobRef)) = None"
  using assms by (simp_all add: analyze_defs new_events_def)

lemma analyze_non_Error_result:
  assumes "assistedRequest en prompt jobId = Inl err" and "\<not> is_Error err"
  shows "fst (analyzeAndTransformJob en jobId prompt uid jobRef w) =
           Inl (JsError ''Error'' (reject_message en jobRef ''error/details''))"
    and "new_events w (snd (analyzeAndTransformJob en jobId prompt uid jobRef w)) =
           [EvAnalyze prompt jobId, EvRejected jobRef ''error/details'']"
    and "store (snd (analyzeAndTransformJob en jobId prompt uid jobRef w)) = store w"
  using assms by (simp_all add: analyze_defs new_events_def)

lemma analyze_failure_poll_fields:
  assumes "assistedRequest en prompt jobId = Inl err"
  shows "list_all poll_fields_with_running
           (new_events w (snd (analyzeAndTransformJob en jobId prompt uid jobRef w)))"
  using assms by (cases "is_Error err") (simp_all add: analyze_defs new_events_def)

lemma initializeJobMetadata_poll_fields:
  "m_ttl (fst (initializeJobMetadata en w)) = Some (clock en (tick w) + JOB_TTL_MS en)
   \<and> m_nextPoll (fst (initializeJobMetadata en w)) = Some (clock en (tick w) + POLL_INTERVAL_MS en)"
  by (simp add: initializeJobMetadata_def date_now_def)

lemma startJob_handle_trace:
  assumes "isValidModelId en (j_model job)"
    and "adapter_start en (j_model job) (j_request job) jobId = Inr res"
    and "truthy_str (sr_operationName res)"
  shows "trace (startJob en jobId job w) = trace w @
     [EvUpdate (''firegen-jobs/'' @ jobId) [WStatus Starting, WUpdatedAt (clock en (tick w))],
      EvStart (j_model job) (j_request job) jobId,
      EvUpdate (''firegen-jobs/'' @ jobId)
        [WStatus Running,
         WUpdatedAt (clock en (Suc (tick w))),
         WOperation (the (sr_operationName res)),
         WTtl (clock en (Suc (tick w)) + JOB_TTL_MS en),
         WAttempt 0,
         WNextPoll (clock en (Suc (tick w)) + POLL_INTERVAL_MS en)],
      EvEnqueue (if truthy_str (EXT_INSTANCE_ID en) then the (EXT_INSTANCE_ID en) else ''firegen'')
        (''firegen-jobs/'' @ jobId) (ceil_div_1000 (POLL_INTERVAL_MS en)) 60]"
proof -
  from assms(3) obtain h where h: "sr_operationName res = Some h" "h \<noteq> []"
    by (cases "sr_operationName res") auto
  from startJob_async_trace [OF assms(1,2) h, of w] h(1) show ?thesis
    by simp
qed

lemma startJob_handle_frame:
  assumes "isValidModelId en (j_model job)"
    and "adapter_start en (j_model job) (j_request job) jobId = Inr res"
    and "truthy_str (sr_operationName res)"
  shows "j_response (store (startJob en jobId job w) (''firegen-jobs/'' @ jobId)) =
           j_response (store w (''firegen-jobs/'' @ jobId))
       \<and> j_files (store (startJob en jobId job w) (''firegen-jobs/'' @ jobId)) =
           j_files (store w (''firegen-jobs/'' @ jobId))"
proof -
  from assms(3) obtain h where h: "sr_operationName res = Some h" "h \<noteq> []"
    by (cases "sr_operationName res") auto
  from startJob_async_store [OF assms(1,2) h, of w] show ?thesis
    by simp
qed

lemma not_alnum_dot: "\<not> is_alnum CHR ''.''"
  by (simp add: is_alnum_def)

lemma regex_ext_suffix:
  "e \<noteq> [] \<Longrightarrow> list_all is_alnum e \<Longrightarrow> regex_ext (b @ ''.'' @ e) = Some e"
  by (induction b) (simp_all add: not_alnum_dot)

lemma getFileExtension_uri:
  "e \<noteq> [] \<Longrightarrow> list_all is_alnum e \<Longrightarrow>
   getFileExtension (Some (b @ ''.'' @ e)) m = ''.'' @ e"
  using regex_ext_suffix [of e b] by (simp add: getFileExtension_def)

lemma getFileExtension_mime:
  assumes "regex_ext u = None"
  shows "getFileExtension (Some u) (Some ''video/mp4'') = ''.mp4''"
    and "getFileExtension (Some u) (Some ''image/png'') = ''.png''"
    and "getFileExtension (Some u) (Some ''image/jpeg'') = ''.jpg''"
    and "getFileExtension (Some u) (Some ''audio/wav'') = ''.wav''"
    and "getFileExtension (Some u) (Some ''audio/mpeg'') = ''.mp3''"
    and "getFileExtension (Some u) None = ''''"
  using assms by (simp_all add: getFileExtension_def typeMap_def)

section \<open>Facts about the codec\<close>

lemma index_of_Some: "index_of x xs = Some i \<Longrightarrow> i < length xs \<and> xs ! i = x"
  by (induction xs arbitrary: i) (auto split: if_splits)

lemma tag_words_Cons:
  "tag_words tab (w # ws) =
     (head_item tab w # fst (tag_words (next_table tab w) ws),
      snd (tag_words (next_table tab w) ws))"
  by (simp add: next_table_def head_item_def Let_def split_beta split: option.splits)

lemma tag_words_extends: "\<exists>ext. snd (tag_words tab ws) = tab @ ext"
proof (induction ws arbitrary: tab)
  case Nil
  then show ?case by simp
next
  case (Cons w ws)
  obtain ext where "snd (tag_words (next_table tab w) ws) = next_table tab w @ ext"
    using Cons.IH by blast
  then show ?case
    by (simp add: tag_words_Cons next_table_def del: tag_words.simps)
qed

lemma table_ok_next: "table_ok tab \<Longrightarrow> table_ok (next_table tab w)"
  by (simp add: table_ok_def next_table_def)

lemma head_item_resolves:
  assumes ok: "table_ok tab" and gs: "is_gs_uri w"
    and ext: "tab' = next_table tab w @ ext"
  shows "\<exists>p. head_item tab w = Tag p \<and> resolvePlaceholder tab' p = Some (w, inferMimeType w)"
proof (cases "index_of w (map fst tab)")
  case None
  with gs ext show ?thesis
    by (simp add: head_item_def next_table_def nth_append)
next
  case (Some i)
  then have i: "i < length tab" "fst (tab ! i) = w"
    using index_of_Some [of w "map fst tab" i] by auto
  from ok i(1) have "snd (tab ! i) = inferMimeType (fst (tab ! i))"
    by (simp add: table_ok_def list_all_length)
  with i have "tab ! i = (w, inferMimeType w)"
    by (simp add: prod_eq_iff)
  with gs ext Some i(1) show ?thesis
    by (simp add: head_item_def next_table_def nth_append)
qed

lemma tag_words_positions:
  "table_ok tab \<Longrightarrow>
   list_all2 (tagged_as (snd (tag_words tab ws))) ws (fst (tag_words tab ws))"
proof (induction ws arbitrary: tab)
  case Nil
  then show ?case by simp
next
  case (Cons w ws)
  let ?t1 = "next_table tab w"
  let ?t' = "snd (tag_words ?t1 ws)"
  have ok1: "table_ok ?t1" using Cons.prems by (rule table_ok_next)
  have tl: "list_all2 (tagged_as ?t') ws (fst (tag_words ?t1 ws))"
    using Cons.IH [OF ok1] .
  obtain ext where ext: "?t' = ?t1 @ ext"
    using tag_words_extends by blast
  have hd: "tagged_as ?t' w (head_item tab w)"
  proof (cases "is_gs_uri w")
    case True
    from head_item_resolves [OF Cons.prems True ext] True show ?thesis
      by (auto simp: tagged_as_def)
  next
    case False
    then show ?thesis by (simp add: tagged_as_def head_item_def)
  qed
  from hd tl show ?case
    by (simp add: tag_words_Cons del: tag_words.simps)
qed

lemma tagged_as_resolve_item: "tagged_as tab w it \<Longrightarrow> resolve_item tab it = Some w"
  by (cases it) (auto simp: tagged_as_def split: if_splits)

lemma list_all2_map_Some:
  "list_all2 (\<lambda>w it. f it = Some w) ws its \<Longrightarrow> map f its = map Some ws"
  by (induction ws its rule: list_all2_induct) auto

lemma tag_words_roundtrip:
  "table_ok tab \<Longrightarrow>
   map (resolve_item (snd (tag_words tab ws))) (fst (tag_words tab ws)) = map Some ws"
proof -
  assume "table_ok tab"
  then have "list_all2 (tagged_as (snd (tag_words tab ws))) ws (fst (tag_words tab ws))"
    by (rule tag_words_positions)
  then have "list_all2 (\<lambda>w it. resolve_item (snd (tag_words tab ws)) it = Some w)
        ws (fst (tag_words tab ws))"
    by (rule list_all2_mono) (simp add: tagged_as_resolve_item)
  then show ?thesis
    by (rule list_all2_map_Some)
qed

lemma resolve_contains:
  "resolvePlaceholder tab p = Some (u, m) \<Longrightarrow> contains (SPlaceholder p) r \<Longrightarrow>
   contains (SMedia u m) (resolveRequest tab r)"
  by (induction r) (auto simp: list_ex_iff)

lemma table_ok_Nil: "table_ok []"
  by (simp add: table_ok_def)

lemma tagUrls_reference:
  assumes "u \<in> set (split_words s)" and "is_gs_uri u"
  shows "\<exists>p. Tag p \<in> set (fst (tagUrls s))
           \<and> resolvePlaceholder (snd (tagUrls s)) p = Some (u, inferMimeType u)"
proof -
  let ?ws = "split_words s"
  let ?items = "fst (tagUrls s)"
  let ?tab = "snd (tagUrls s)"
  have all: "list_all2 (tagged_as ?tab) ?ws ?items"
    unfolding tagUrls_def by (rule tag_words_positions [OF table_ok_Nil])
  from assms(1) obtain k where k: "k < length ?ws" "?ws ! k = u"
    by (auto simp: in_set_conv_nth)
  from all k have len: "k < length ?items" and t: "tagged_as ?tab u (?items ! k)"
    by (auto simp: list_all2_conv_all_nth)
  from t assms(2) obtain p where p: "?items ! k = Tag p"
      "resolvePlaceholder ?tab p = Some (u, inferMimeType u)"
    by (cases "?items ! k") (auto simp: tagged_as_def)
  from len p(1) have "Tag p \<in> set ?items"
    by (metis nth_mem)
  with p(2) show ?thesis by blast
qed

lemma inferMimeType_jpg: "regex_ext u = Some ''jpg'' \<Longrightarrow> inferMimeType u = Some ''image/jpeg''"
  by (simp add: inferMimeType_def mimeOfExtension_def)

lemma inferMimeType_png: "regex_ext u = Some ''png'' \<Longrightarrow> inferMimeType u = Some ''image/png''"
  by (simp add: inferMimeType_def mimeOfExtension_def)

lemma split_prompt: "split_words prompt_two_refs =
  [''Blend'', ''gs://bucket/path/name.jpg'', ''with'', ''gs://bucket/other/name.png'', ''and'',
   ''gs://bucket/path/name.jpg'']"
  by (simp add: split_words_def prompt_two_refs_def is_space_def)

lemma tag_prompt: "tagUrls prompt_two_refs =
  ([Word ''Blend'', Tag (Placeholder 1 (Some ''image/jpeg'')), Word ''with'',
    Tag (Placeholder 2 (Some ''image/png'')), Word ''and'',
    Tag (Placeholder 1 (Some ''image/jpeg''))],
   [(''gs://bucket/path/name.jpg'', Some ''image/jpeg''),
    (''gs://bucket/other/name.png'', Some ''image/png'')])"
  by (simp add: tagUrls_def split_prompt is_gs_uri_def inferMimeType_def mimeOfExtension_def
      is_alnum_def)

section \<open>Claims\<close>

subsection \<open>C1: a second invocation of startJob\<close>

text \<open>
  Claim C1, as stated, says that a second invocation of \<^verbatim>\<open>startJob\<close> on a job that
  is already \<^verbatim>\<open>starting\<close> or later performs no second backend submission.
  \<^verbatim>\<open>startJob\<close> has no guard on the status. Here the first invocation leaves the job
  \<^verbatim>\<open>running\<close> after one call of the adapter's \<^verbatim>\<open>start\<close>; the second
  invocation, given the record as it now stands, calls \<^verbatim>\<open>start\<close> again.
\<close>

theorem startJob_twice_counterexample:
  "j_status (store (startJob env_async ''j1'' job_veo world_created) ''firegen-jobs/j1'')
     = Some Running
   \<and> count_starts (trace (startJob env_async ''j1'' job_veo world_created)) = 1
   \<and> count_starts (trace (startJob env_async ''j1''
         (store (startJob env_async ''j1'' job_veo world_created) ''firegen-jobs/j1'')
         (startJob env_async ''j1'' job_veo world_created))) = 2"
  by (simp add: startJob_defs env_async_def job_veo_def world_created_def world0_def
      empty_node_def empty_metadata_def apply_writes_def count_starts_def)

text \<open>
  Claim C1, amended. \<^verbatim>\<open>startJob\<close> does not read the status of the job it is given:
  the outcome of an invocation is the same whatever that status is, and every
  invocation calls the adapter's \<^verbatim>\<open>start\<close> exactly once when the model identifier
  is in the registry and not at all otherwise. A second backend submission is avoided
  only if the handler is not invoked a second time.
\<close>

theorem startJob_no_status_guard:
  "startJob en jobId (job\<lparr>j_status := s\<rparr>) w = startJob en jobId job w
   \<and> count_starts (new_events w (startJob en jobId job w)) =
       (if isValidModelId en (j_model job) then 1 else 0)"
  by (simp add: startJob_status_irrelevant new_events_startJob_count)

subsection \<open>C2: the adapter's start result\<close>

text \<open>
  Claim C2, as stated, says that a start result with both \<^verbatim>\<open>operationName\<close> and
  \<^verbatim>\<open>output\<close> present is treated as a contract violation and written as
  \<^verbatim>\<open>failed\<close> with \<^verbatim>\<open>START_FAILED\<close>. \<^verbatim>\<open>startJob\<close> tests
  \<^verbatim>\<open>result.operationName\<close> first and \<^verbatim>\<open>result.output\<close> only in the
  \<^verbatim>\<open>else\<close> branch: with both present the job is written as \<^verbatim>\<open>running\<close> and no
  error is recorded.
\<close>

theorem startJob_both_present_counterexample:
  "adapter_start env_both (j_model job_veo) (j_request job_veo) ''j1'' =
     Inr \<lparr>sr_operationName = Some ''operations/op-1'', sr_output = Some out_png,
          sr_rawResponse = None\<rparr>
   \<and> j_status (store (startJob env_both ''j1'' job_veo world_created) ''firegen-jobs/j1'')
       = Some Running
   \<and> j_error (store (startJob env_both ''j1'' job_veo world_created) ''firegen-jobs/j1'')
       = None"
  by (simp add: startJob_defs env_both_def env_async_def job_veo_def world_created_def
      world0_def empty_node_def empty_metadata_def apply_writes_def)

text \<open>
  Claim C2, amended. For a job with a registered model whose adapter returns a start
  result: if \<^verbatim>\<open>operationName\<close> and \<^verbatim>\<open>output\<close> are both absent (an empty
  \<^verbatim>\<open>operationName\<close> counts as absent), \<^verbatim>\<open>startJob\<close> writes the job as
  \<^verbatim>\<open>failed\<close> with \<^verbatim>\<open>error.code\<close> \<^verbatim>\<open>START_FAILED\<close>; if both are present, the
  operation handle takes precedence: the job is written as \<^verbatim>\<open>running\<close>, the output
  is ignored and no error is written. That the output is ignored means: the calls made
  are exactly those of the asynchronous path (the two updates, the adapter call and the
  enqueue; no signing call, no write of \<^verbatim>\<open>response\<close> or \<^verbatim>\<open>files\<close>), and the
  stored \<^verbatim>\<open>response\<close>, \<^verbatim>\<open>files\<close> and \<^verbatim>\<open>error\<close> are as before.
\<close>

theorem startJob_contract:
  assumes "isValidModelId en (j_model job)"
    and "adapter_start en (j_model job) (j_request job) jobId = Inr res"
  shows "(\<not> truthy_str (sr_operationName res) \<and> sr_output res = None \<longrightarrow>
            j_status (store (startJob en jobId job w) (''firegen-jobs/'' @ jobId)) = Some Failed
          \<and> j_error (store (startJob en jobId job w) (''firegen-jobs/'' @ jobId)) =
              Some \<lparr>e_code = ''START_FAILED'',
                     e_message = ''Model adapter returned invalid result'',
                     e_details = None\<rparr>)
       \<and> (truthy_str (sr_operationName res) \<and> sr_output res \<noteq> None \<longrightarrow>
            new_events w (startJob en jobId job w) =
              [EvUpdate (''firegen-jobs/'' @ jobId)
                 [WStatus Starting, WUpdatedAt (clock en (tick w))],
               EvStart (j_model job) (j_request job) jobId,
               EvUpdate (''firegen-jobs/'' @ jobId)
                 [WStatus Running,
                  WUpdatedAt (clock en (Suc (tick w))),
                  WOperation (the (sr_operationName res)),
                  WTtl (clock en (Suc (tick w)) + JOB_TTL_MS en),
                  WAttempt 0,
                  WNextPoll (clock en (Suc (tick w)) + POLL_INTERVAL_MS en)],
               EvEnqueue (if truthy_str (EXT_INSTANCE_ID en) then the (EXT_INSTANCE_ID en)
                          else ''firegen'')
                 (''firegen-jobs/'' @ jobId) (ceil_div_1000 (POLL_INTERVAL_MS en)) 60]
          \<and> j_status (store (startJob en jobId job w) (''firegen-jobs/'' @ jobId)) = Some Running
          \<and> j_error (store (startJob en jobId job w) (''firegen-jobs/'' @ jobId)) =
              j_error (store w (''firegen-jobs/'' @ jobId))
          \<and> j_response (store (startJob en jobId job w) (''firegen-jobs/'' @ jobId)) =
              j_response (store w (''firegen-jobs/'' @ jobId))
          \<and> j_files (store (startJob en jobId job w) (''firegen-jobs/'' @ jobId)) =
              j_files (store w (''firegen-jobs/'' @ jobId)))"
proof (intro conjI impI)
  assume a: "\<not> truthy_str (sr_operationName res) \<and> sr_output res = None"
  from startJob_invalid_result_store [OF assms, of w] a
  show "j_status (store (startJob en jobId job w) (''firegen-jobs/'' @ jobId)) = Some Failed"
    by simp
  from startJob_invalid_result_store [OF assms, of w] a
  show "j_error (store (startJob en jobId job w) (''firegen-jobs/'' @ jobId)) =
              Some \<lparr>e_code = ''START_FAILED'',
                     e_message = ''Model adapter returned invalid result'',
                     e_details = None\<rparr>"
    by simp
next
  assume b: "truthy_str (sr_operationName res) \<and> sr_output res \<noteq> None"
  then have t: "truthy_str (sr_operationName res)" by simp
  from startJob_handle_trace [OF assms t, of w]
  show "new_events w (startJob en jobId job w) =
              [EvUpdate (''firegen-jobs/'' @ jobId)
                 [WStatus Starting, WUpdatedAt (clock en (tick w))],
               EvStart (j_model job) (j_request job) jobId,
               EvUpdate (''firegen-jobs/'' @ jobId)
                 [WStatus Running,
                  WUpdatedAt (clock en (Suc (tick w))),
                  WOperation (the (sr_operationName res)),
                  WTtl (clock en (Suc (tick w)) + JOB_TTL_MS en),
                  WAttempt 0,
                  WNextPoll (clock en (Suc (tick w)) + POLL_INTERVAL_MS en)],
               EvEnqueue (if truthy_str (EXT_INSTANCE_ID en) then the (EXT_INSTANCE_ID en)
                          else ''firegen'')
                 (''firegen-jobs/'' @ jobId) (ceil_div_1000 (POLL_INTERVAL_MS en)) 60]"
    by (simp add: new_events_def)
  from startJob_handle_store [OF assms t, of w]
  show "j_status (store (startJob en jobId job w) (''firegen-jobs/'' @ jobId)) = Some Running"
    by simp
  from startJob_handle_store [OF assms t, of w]
  show "j_error (store (startJob en jobId job w) (''firegen-jobs/'' @ jobId)) =
              j_error (store w (''firegen-jobs/'' @ jobId))"
    by simp
  from startJob_handle_frame [OF assms t, of w]
  show "j_response (store (startJob en jobId job w) (''firegen-jobs/'' @ jobId)) =
              j_response (store w (''firegen-jobs/'' @ jobId))"
    by simp
  from startJob_handle_frame [OF assms t, of w]
  show "j_files (store (startJob en jobId job w) (''firegen-jobs/'' @ jobId)) =
              j_files (store w (''firegen-jobs/'' @ jobId))"
    by simp
qed

theorem startJob_contract_witness:
  "isValidModelId env_none (j_model job_veo)
   \<and> j_status (store (startJob env_none ''j1'' job_veo world_created) ''firegen-jobs/j1'')
       = Some Failed
   \<and> map_option e_code
       (j_error (store (startJob env_none ''j1'' job_veo world_created) ''firegen-jobs/j1''))
       = Some ''START_FAILED''
   \<and> isValidModelId env_both (j_model job_veo)
   \<and> new_events world_created (startJob env_both ''j1'' job_veo world_created) =
       [EvUpdate ''firegen-jobs/j1'' [WStatus Starting, WUpdatedAt 1700000000000],
        EvStart (j_model job_veo) (j_request job_veo) ''j1'',
        EvUpdate ''firegen-jobs/j1''
          [WStatus Running, WUpdatedAt 1700000000001, WOperation ''operations/op-1'',
           WTtl 1700005400001, WAttempt 0, WNextPoll 1700000001001],
        EvEnqueue ''firegen'' ''firegen-jobs/j1'' 1 60]
   \<and> j_status (store (startJob env_both ''j1'' job_veo world_created) ''firegen-jobs/j1'')
       = Some Running
   \<and> j_files (store (startJob env_both ''j1'' job_veo world_created) ''firegen-jobs/j1'')
       = None
   \<and> j_response (store (startJob env_both ''j1'' job_veo world_created) ''firegen-jobs/j1'')
       = None"
proof -
  have v1: "isValidModelId env_none (j_model job_veo)"
    by (simp add: env_none_def env_async_def job_veo_def)
  have a1: "adapter_start env_none (j_model job_veo) (j_request job_veo) ''j1'' =
      Inr \<lparr>sr_operationName = None, sr_output = None, sr_rawResponse = None\<rparr>"
    by (simp add: env_none_def env_async_def)
  have v2: "isValidModelId env_both (j_model job_veo)"
    by (simp add: env_both_def env_async_def job_veo_def)
  have a2: "adapter_start env_both (j_model job_veo) (j_request job_veo) ''j1'' =
      Inr \<lparr>sr_operationName = Some ''operations/op-1'', sr_output = Some out_png,
           sr_rawResponse = None\<rparr>"
    by (simp add: env_both_def env_async_def)
  have tk: "tick world_created = 0"
    by (simp add: world_created_def world0_def)
  have old: "j_files (store world_created ''firegen-jobs/j1'') = None"
      "j_response (store world_created ''firegen-jobs/j1'') = None"
    by (simp_all add: world_created_def world0_def job_veo_def empty_node_def)
  from startJob_contract [OF v1 a1, of world_created] v1
  have p1: "j_status (store (startJob env_none ''j1'' job_veo world_created) ''firegen-jobs/j1'')
       = Some Failed
     \<and> map_option e_code
       (j_error (store (startJob env_none ''j1'' job_veo world_created) ''firegen-jobs/j1''))
       = Some ''START_FAILED''"
    by auto
  from startJob_contract [OF v2 a2, of world_created] tk old
  have p2: "new_events world_created (startJob env_both ''j1'' job_veo world_created) =
       [EvUpdate ''firegen-jobs/j1'' [WStatus Starting, WUpdatedAt 1700000000000],
        EvStart (j_model job_veo) (j_request job_veo) ''j1'',
        EvUpdate ''firegen-jobs/j1''
          [WStatus Running, WUpdatedAt 1700000000001, WOperation ''operations/op-1'',
           WTtl 1700005400001, WAttempt 0, WNextPoll 1700000001001],
        EvEnqueue ''firegen'' ''firegen-jobs/j1'' 1 60]
     \<and> j_status (store (startJob env_both ''j1'' job_veo world_created) ''firegen-jobs/j1'')
       = Some Running
     \<and> j_files (store (startJob env_both ''j1'' job_veo world_created) ''firegen-jobs/j1'')
       = None
     \<and> j_response (store (startJob env_both ''j1'' job_veo world_created) ''firegen-jobs/j1'')
       = None"
    by (auto simp: env_both_def env_async_def ceil_div_1000_def)
  from v1 p1 v2 p2 show ?thesis by blast
qed

subsection \<open>C3: where ttl and nextPoll are written\<close>

text \<open>
  Claim C3, as stated, says that no write of the orchestrator or the analyzer produces
  a record with status \<^verbatim>\<open>requested\<close> that carries \<^verbatim>\<open>ttl\<close> or
  \<^verbatim>\<open>nextPoll\<close>. After a successful analysis \<^verbatim>\<open>analyzeAndTransformJob\<close> stores
  the transformed job as a whole node: its status is \<^verbatim>\<open>requested\<close> and its metadata
  already holds \<^verbatim>\<open>ttl\<close> and \<^verbatim>\<open>nextPoll\<close>.
\<close>

theorem analyze_requested_record_counterexample:
  "take 2 (trace (snd (analyzeAndTransformJob env_assisted ''j1'' ''make a video'' ''u1''
       ''firegen-jobs/j1'' world0))) =
     [EvAnalyze ''make a video'' ''j1'',
      EvSet ''firegen-jobs/j1''
        \<lparr>j_uid = Some ''u1'',
         j_model = Some ''veo-3.1-fast-generate-preview'',
         j_status = Some Requested,
         j_request = Some (JObj [(''model'', JStr ''veo-3.1-fast-generate-preview'')]),
         j_assisted = Some \<lparr>a_prompt = ''make a video'', a_reasons = [''video requested'']\<rparr>,
         j_response = None,
         j_files = None,
         j_error = None,
         j_metadata = \<lparr>m_version = Some ''0.3.3'',
                        m_createdAt = Some 1700000000000,
                        m_updatedAt = Some 1700000000000, m_operation = None,
                        m_ttl = Some 1700005400000, m_attempt = Some 0,
                        m_nextPoll = Some 1700000001000,
                        m_lastError = None\<rparr>\<rparr>]"
  by (simp add: analyzeAndTransformJob_def startJob_defs env_assisted_def env_async_def
      world0_def FIREGEN_VERSION_def)

text \<open>
  Claim C3, amended. \<^verbatim>\<open>metadata.ttl\<close> and \<^verbatim>\<open>metadata.nextPoll\<close> are not
  confined to the status \<^verbatim>\<open>running\<close>. Every write that \<^verbatim>\<open>startJob\<close> issues,
  update or whole-node write, that carries \<^verbatim>\<open>ttl\<close> or \<^verbatim>\<open>nextPoll\<close> also sets
  the status to \<^verbatim>\<open>running\<close>; the same holds for every write of
  \<^verbatim>\<open>analyzeAndTransformJob\<close> when the analysis throws, where the failure record,
  written when the thrown value is an \<^verbatim>\<open>Error\<close>, carries neither field. But the
  transform write of the analyzer stores a record with status \<^verbatim>\<open>requested\<close> that
  carries \<^verbatim>\<open>ttl = now + JOB_TTL_MS\<close> and \<^verbatim>\<open>nextPoll = now + POLL_INTERVAL_MS\<close>
  (the metadata that \<^verbatim>\<open>initializeJobMetadata\<close> builds for a new job carries the
  same two fields), and no write of \<^verbatim>\<open>startJob\<close> removes either field from a record
  that has it.
\<close>

theorem poll_fields_placement:
  "list_all poll_fields_with_running (new_events w (startJob en jobId job w))
   \<and> m_ttl (fst (initializeJobMetadata en w)) = Some (clock en (tick w) + JOB_TTL_MS en)
   \<and> m_nextPoll (fst (initializeJobMetadata en w)) = Some (clock en (tick w) + POLL_INTERVAL_MS en)
   \<and> (m_ttl (j_metadata (store w q)) \<noteq> None \<longrightarrow>
        m_ttl (j_metadata (store (startJob en jobId job w) q)) \<noteq> None)
   \<and> (m_nextPoll (j_metadata (store w q)) \<noteq> None \<longrightarrow>
        m_nextPoll (j_metadata (store (startJob en jobId job w) q)) \<noteq> None)
   \<and> (assistedRequest en prompt jobId = Inl err \<longrightarrow>
        list_all poll_fields_with_running
          (new_events w (snd (analyzeAndTransformJob en jobId prompt uid jobRef w))))
   \<and> (assistedRequest en prompt jobId = Inl err \<and> is_Error err \<longrightarrow>
        new_events w (snd (analyzeAndTransformJob en jobId prompt uid jobRef w)) =
          [EvAnalyze prompt jobId,
           EvSet jobRef (store (snd (analyzeAndTransformJob en jobId prompt uid jobRef w)) jobRef)]
      \<and> m_ttl (j_metadata
           (store (snd (analyzeAndTransformJob en jobId prompt uid jobRef w)) jobRef)) = None
      \<and> m_nextPoll (j_metadata
           (store (snd (analyzeAndTransformJob en jobId prompt uid jobRef w)) jobRef)) = None)
   \<and> (assistedRequest en prompt jobId = Inr an \<longrightarrow>
        take 2 (new_events w (snd (analyzeAndTransformJob en jobId prompt uid jobRef w))) =
          [EvAnalyze prompt jobId,
           EvSet jobRef
             \<lparr>j_uid = Some uid,
              j_model = Some (an_model an),
              j_status = Some Requested,
              j_request = Some (JObj (an_request an)),
              j_assisted = Some \<lparr>a_prompt = prompt, a_reasons = an_reasons an\<rparr>,
              j_response = None,
              j_files = None,
              j_error = None,
              j_metadata = \<lparr>m_version = Some FIREGEN_VERSION,
                             m_createdAt = Some (clock en (tick w)),
                             m_updatedAt = Some (clock en (tick w)), m_operation = None,
                             m_ttl = Some (clock en (tick w) + JOB_TTL_MS en),
                             m_attempt = Some 0,
                             m_nextPoll = Some (clock en (tick w) + POLL_INTERVAL_MS en),
                             m_lastError = None\<rparr>\<rparr>])"
  using startJob_poll_fields [of w en jobId job]
    initializeJobMetadata_poll_fields [of en w]
    startJob_keeps_ttl [of w q en jobId job]
    startJob_keeps_nextPoll [of w q en jobId job]
    analyze_failure_poll_fields [where en = en and prompt = prompt and jobId = jobId
      and err = err and w = w and uid = uid and jobRef = jobRef]
    analyze_Error_result(2,6,7) [where en = en and prompt = prompt and jobId = jobId
      and err = err and w = w and uid = uid and jobRef = jobRef]
    analyze_success_prefix [where en = en and prompt = prompt and jobId = jobId
      and an = an and w = w and uid = uid and jobRef = jobRef]
  by blast

theorem poll_fields_placement_witness:
  "m_ttl (j_metadata (store world_polling ''firegen-jobs/j1'')) \<noteq> None
   \<and> m_ttl (j_metadata (store (startJob env_none ''j1'' job_veo world_polling)
        ''firegen-jobs/j1'')) \<noteq> None
   \<and> m_nextPoll (j_metadata (store world_polling ''firegen-jobs/j1'')) \<noteq> None
   \<and> m_nextPoll (j_metadata (store (startJob env_none ''j1'' job_veo world_polling)
        ''firegen-jobs/j1'')) \<noteq> None
   \<and> j_status (store (startJob env_none ''j1'' job_veo world_polling) ''firegen-jobs/j1'')
        = Some Failed
   \<and> assistedRequest env_async ''make a video'' ''j1'' =
        Inl (JsError ''Error'' ''model call failed'')
   \<and> is_Error (JsError ''Error'' ''model call failed'')
   \<and> m_ttl (j_metadata (store
        (snd (analyzeAndTransformJob env_async ''j1'' ''make a video'' ''u1'' ''firegen-jobs/j1''
           world0))
        ''firegen-jobs/j1'')) = None
   \<and> list_all poll_fields_with_running (new_events world0
        (snd (analyzeAndTransformJob env_async ''j1'' ''make a video'' ''u1'' ''firegen-jobs/j1''
           world0)))
   \<and> assistedRequest env_assisted ''make a video'' ''j1'' =
        Inr \<lparr>an_model = ''veo-3.1-fast-generate-preview'',
             an_request = [(''model'', JStr ''veo-3.1-fast-generate-preview'')],
             an_reasons = [''video requested'']\<rparr>
   \<and> length (take 2 (new_events world0
        (snd (analyzeAndTransformJob env_assisted ''j1'' ''make a video'' ''u1''
           ''firegen-jobs/j1'' world0)))) = 2
   \<and> \<not> list_all poll_fields_with_running (new_events world0
        (snd (analyzeAndTransformJob env_assisted ''j1'' ''make a video'' ''u1''
           ''firegen-jobs/j1'' world0)))"
proof -
  have t: "m_ttl (j_metadata (store world_polling ''firegen-jobs/j1'')) \<noteq> None"
    and n: "m_nextPoll (j_metadata (store world_polling ''firegen-jobs/j1'')) \<noteq> None"
    by (simp_all add: world_polling_def world0_def empty_metadata_def)
  have f: "j_status (store (startJob env_none ''j1'' job_veo world_polling) ''firegen-jobs/j1'')
      = Some Failed"
    by (simp add: startJob_defs env_none_def env_async_def job_veo_def empty_node_def
        apply_writes_def)
  have l: "assistedRequest env_async ''make a video'' ''j1'' =
      Inl (JsError ''Error'' ''model call failed'')"
    by (simp add: env_async_def)
  have e: "is_Error (JsError ''Error'' ''model call failed'')"
    by simp
  have r: "assistedRequest env_assisted ''make a video'' ''j1'' =
      Inr \<lparr>an_model = ''veo-3.1-fast-generate-preview'',
           an_request = [(''model'', JStr ''veo-3.1-fast-generate-preview'')],
           an_reasons = [''video requested'']\<rparr>"
    by (simp add: env_assisted_def env_async_def)
  from poll_fields_placement [of world_polling env_none "''j1''" job_veo "''firegen-jobs/j1''"]
    t n
  have k: "m_ttl (j_metadata (store (startJob env_none ''j1'' job_veo world_polling)
        ''firegen-jobs/j1'')) \<noteq> None
      \<and> m_nextPoll (j_metadata (store (startJob env_none ''j1'' job_veo world_polling)
        ''firegen-jobs/j1'')) \<noteq> None"
    by blast
  from poll_fields_placement [of world0 env_async "''j1''" job_veo "''firegen-jobs/j1''"
      "''make a video''" "JsError ''Error'' ''model call failed''" "''u1''" "''firegen-jobs/j1''"]
    l e
  have a: "m_ttl (j_metadata (store
        (snd (analyzeAndTransformJob env_async ''j1'' ''make a video'' ''u1'' ''firegen-jobs/j1''
           world0))
        ''firegen-jobs/j1'')) = None
      \<and> list_all poll_fields_with_running (new_events world0
        (snd (analyzeAndTransformJob env_async ''j1'' ''make a video'' ''u1'' ''firegen-jobs/j1''
           world0)))"
    by blast
  from poll_fields_placement [of world0 env_assisted "''j1''" job_veo "''firegen-jobs/j1''"
      "''make a video''" _ "''u1''" "''firegen-jobs/j1''"] r
  have b: "take 2 (new_events world0
        (snd (analyzeAndTransformJob env_assisted ''j1'' ''make a video'' ''u1''
           ''firegen-jobs/j1'' world0))) =
      [EvAnalyze ''make a video'' ''j1'',
       EvSet ''firegen-jobs/j1''
         \<lparr>j_uid = Some ''u1'',
          j_model = Some ''veo-3.1-fast-generate-preview'',
          j_status = Some Requested,
          j_request = Some (JObj [(''model'', JStr ''veo-3.1-fast-generate-preview'')]),
          j_assisted = Some \<lparr>a_prompt = ''make a video'', a_reasons = [''video requested'']\<rparr>,
          j_response = None,
          j_files = None,
          j_error = None,
          j_metadata = \<lparr>m_version = Some FIREGEN_VERSION,
                         m_createdAt = Some (clock env_assisted (tick world0)),
                         m_updatedAt = Some (clock env_assisted (tick world0)),
                         m_operation = None,
                         m_ttl = Some (clock env_assisted (tick world0) + JOB_TTL_MS env_assisted),
                         m_attempt = Some 0,
                         m_nextPoll = Some (clock env_assisted (tick world0)
                                            + POLL_INTERVAL_MS env_assisted),
                         m_lastError = None\<rparr>\<rparr>]"
    by simp
  from b have b1: "length (take 2 (new_events world0
        (snd (analyzeAndTransformJob env_assisted ''j1'' ''make a video'' ''u1''
           ''firegen-jobs/j1'' world0)))) = 2"
    by simp
  have "\<not> list_all poll_fields_with_running (take 2 (new_events world0
        (snd (analyzeAndTransformJob env_assisted ''j1'' ''make a video'' ''u1''
           ''firegen-jobs/j1'' world0))))"
    by (simp add: b)
  then have b2: "\<not> list_all poll_fields_with_running (new_events world0
        (snd (analyzeAndTransformJob env_assisted ''j1'' ''make a video'' ''u1''
           ''firegen-jobs/j1'' world0)))"
    by (metis append_take_drop_id list_all_append)
  from t n f l e r k a b1 b2 show ?thesis by blast
qed

subsection \<open>C4: the asynchronous path\<close>

text \<open>
  Claim C4. When the model identifier is in the registry and the adapter's
  \<^verbatim>\<open>start\<close> returns an operation handle (a non-empty \<^verbatim>\<open>operationName\<close>),
  \<^verbatim>\<open>startJob\<close> writes \<^verbatim>\<open>starting\<close>, calls the adapter, then writes in one update
  the status \<^verbatim>\<open>running\<close> with \<^verbatim>\<open>ttl = now + JOB_TTL_MS\<close>, \<^verbatim>\<open>attempt = 0\<close>
  and \<^verbatim>\<open>nextPoll = now + POLL_INTERVAL_MS\<close>, where \<open>now\<close> is the clock reading taken
  for that write, and last enqueues the first poll task. Nothing else is written, and
  the stored record carries these values.
\<close>

theorem startJob_async_running:
  assumes "isValidModelId en (j_model job)"
    and "adapter_start en (j_model job) (j_request job) jobId = Inr res"
    and "sr_operationName res = Some h" and "h \<noteq> []"
  shows "new_events w (startJob en jobId job w) =
     [EvUpdate (''firegen-jobs/'' @ jobId) [WStatus Starting, WUpdatedAt (clock en (tick w))],
      EvStart (j_model job) (j_request job) jobId,
      EvUpdate (''firegen-jobs/'' @ jobId)
        [WStatus Running,
         WUpdatedAt (clock en (Suc (tick w))),
         WOperation h,
         WTtl (clock en (Suc (tick w)) + JOB_TTL_MS en),
         WAttempt 0,
         WNextPoll (clock en (Suc (tick w)) + POLL_INTERVAL_MS en)],
      EvEnqueue (if truthy_str (EXT_INSTANCE_ID en) then the (EXT_INSTANCE_ID en) else ''firegen'')
        (''firegen-jobs/'' @ jobId) (ceil_div_1000 (POLL_INTERVAL_MS en)) 60]
   \<and> j_status (store (startJob en jobId job w) (''firegen-jobs/'' @ jobId)) = Some Running
   \<and> m_ttl (j_metadata (store (startJob en jobId job w) (''firegen-jobs/'' @ jobId)))
        = Some (clock en (Suc (tick w)) + JOB_TTL_MS en)
   \<and> m_attempt (j_metadata (store (startJob en jobId job w) (''firegen-jobs/'' @ jobId)))
        = Some 0
   \<and> m_nextPoll (j_metadata (store (startJob en jobId job w) (''firegen-jobs/'' @ jobId)))
        = Some (clock en (Suc (tick w)) + POLL_INTERVAL_MS en)"
  using startJob_async_trace [OF assms, of w] startJob_async_store [OF assms, of w]
  by (simp add: new_events_def)

theorem startJob_async_running_witness:
  "isValidModelId env_async (j_model job_veo)
   \<and> new_events world_created (startJob env_async ''j1'' job_veo world_created) =
     [EvUpdate ''firegen-jobs/j1'' [WStatus Starting, WUpdatedAt 1700000000000],
      EvStart (j_model job_veo) (j_request job_veo) ''j1'',
      EvUpdate ''firegen-jobs/j1''
        [WStatus Running, WUpdatedAt 1700000000001, WOperation ''operations/op-1'',
         WTtl 1700005400001, WAttempt 0, WNextPoll 1700000001001],
      EvEnqueue ''firegen'' ''firegen-jobs/j1'' 1 60]
   \<and> j_status (store (startJob env_async ''j1'' job_veo world_created) ''firegen-jobs/j1'')
        = Some Running"
proof -
  have v: "isValidModelId env_async (j_model job_veo)"
    by (simp add: env_async_def job_veo_def)
  have a: "adapter_start env_async (j_model job_veo) (j_request job_veo) ''j1'' =
      Inr \<lparr>sr_operationName = Some ''operations/op-1'', sr_output = None, sr_rawResponse = None\<rparr>"
    by (simp add: env_async_def)
  have tk: "tick world_created = 0"
    by (simp add: world_created_def world0_def)
  from startJob_async_running [OF v a, of "''operations/op-1''" world_created] v tk show ?thesis
    by (auto simp: env_async_def ceil_div_1000_def)
qed

subsection \<open>C5: unknown model identifier\<close>

text \<open>
  Claim C5. When the model identifier of a structured job is not in the registry,
  \<^verbatim>\<open>startJob\<close> writes \<^verbatim>\<open>starting\<close> and then \<^verbatim>\<open>failed\<close> with the error code
  \<^verbatim>\<open>START_FAILED\<close>; the adapter's \<^verbatim>\<open>start\<close> is not called, and the stored record
  ends \<^verbatim>\<open>failed\<close> with that code.
\<close>

theorem startJob_unknown_model:
  assumes "\<not> isValidModelId en (j_model job)"
  shows "new_events w (startJob en jobId job w) =
     [EvUpdate (''firegen-jobs/'' @ jobId) [WStatus Starting, WUpdatedAt (clock en (tick w))],
      EvUpdate (''firegen-jobs/'' @ jobId)
        [WStatus Failed,
         WError \<lparr>e_code = ''START_FAILED'',
                 e_message = ''Unknown model ID: '' @ show_model_id (j_model job),
                 e_details = None\<rparr>,
         WUpdatedAt (clock en (Suc (tick w)))]]
   \<and> count_starts (new_events w (startJob en jobId job w)) = 0
   \<and> j_status (store (startJob en jobId job w) (''firegen-jobs/'' @ jobId)) = Some Failed
   \<and> map_option e_code (j_error (store (startJob en jobId job w) (''firegen-jobs/'' @ jobId)))
        = Some ''START_FAILED''"
  using assms startJob_invalid_trace [OF assms, of jobId w]
    startJob_invalid_store [OF assms, of jobId w]
  by (simp add: new_events_def count_starts_def)

theorem startJob_unknown_model_witness:
  "\<not> isValidModelId env_async (j_model (job_veo\<lparr>j_model := Some ''no-such-model''\<rparr>))
   \<and> count_starts (new_events world_created
        (startJob env_async ''j1'' (job_veo\<lparr>j_model := Some ''no-such-model''\<rparr>) world_created)) = 0
   \<and> j_status (store (startJob env_async ''j1'' (job_veo\<lparr>j_model := Some ''no-such-model''\<rparr>)
        world_created) ''firegen-jobs/j1'') = Some Failed
   \<and> map_option e_code (j_error (store (startJob env_async ''j1''
        (job_veo\<lparr>j_model := Some ''no-such-model''\<rparr>) world_created) ''firegen-jobs/j1''))
        = Some ''START_FAILED''"
proof -
  have h: "\<not> isValidModelId env_async (j_model (job_veo\<lparr>j_model := Some ''no-such-model''\<rparr>))"
    by (simp add: env_async_def)
  from startJob_unknown_model [OF h, of world_created "''j1''"] h show ?thesis
    by (auto simp: count_starts_def)
qed

subsection \<open>C6: failure of the analyzer\<close>

text \<open>
  Claim C6 says that whenever \<^verbatim>\<open>assistedRequest\<close> throws, the job record is
  written exactly once, as \<^verbatim>\<open>failed\<close> with \<^verbatim>\<open>error.code\<close>
  \<^verbatim>\<open>AI_ANALYSIS_FAILED\<close> and the original prompt, with no second analysis. The
  code does so when the thrown value is an \<^verbatim>\<open>Error\<close>: one analyzer call, one
  whole-node write of that record, normal completion. When the thrown value is not an
  \<^verbatim>\<open>Error\<close>, the catch block puts \<^verbatim>\<open>details: undefined\<close> into the record; the
  database client rejects it, so after the one analyzer call nothing is written, the
  job node stays as it was and the rejection leaves \<^verbatim>\<open>analyzeAndTransformJob\<close>.
\<close>

theorem analyze_failure_write:
  assumes "assistedRequest en prompt jobId = Inl err"
  shows "(is_Error err \<longrightarrow>
            fst (analyzeAndTransformJob en jobId prompt uid jobRef w) = Inr ()
          \<and> new_events w (snd (analyzeAndTransformJob en jobId prompt uid jobRef w)) =
              [EvAnalyze prompt jobId,
               EvSet jobRef
                 (store (snd (analyzeAndTransformJob en jobId prompt uid jobRef w)) jobRef)]
          \<and> j_status (store (snd (analyzeAndTransformJob en jobId prompt uid jobRef w)) jobRef)
              = Some Failed
          \<and> map_option e_code
              (j_error (store (snd (analyzeAndTransformJob en jobId prompt uid jobRef w)) jobRef))
              = Some ''AI_ANALYSIS_FAILED''
          \<and> map_option a_prompt
              (j_assisted (store (snd (analyzeAndTransformJob en jobId prompt uid jobRef w)) jobRef))
              = Some prompt)
       \<and> (\<not> is_Error err \<longrightarrow>
            fst (analyzeAndTransformJob en jobId prompt uid jobRef w) =
              Inl (JsError ''Error'' (reject_message en jobRef ''error/details''))
          \<and> new_events w (snd (analyzeAndTransformJob en jobId prompt uid jobRef w)) =
              [EvAnalyze prompt jobId, EvRejected jobRef ''error/details'']
          \<and> store (snd (analyzeAndTransformJob en jobId prompt uid jobRef w)) = store w)"
  using analyze_Error_result(1-5) [OF assms, where uid = uid and jobRef = jobRef and w = w]
    analyze_non_Error_result [OF assms, where uid = uid and jobRef = jobRef and w = w]
  by blast

theorem analyze_failure_write_witness:
  "assistedRequest env_async ''make a video'' ''j1'' = Inl (JsError ''Error'' ''model call failed'')
   \<and> is_Error (JsError ''Error'' ''model call failed'')
   \<and> length (new_events world_created
        (snd (analyzeAndTransformJob env_async ''j1'' ''make a video'' ''u1'' ''firegen-jobs/j1''
           world_created))) = 2
   \<and> j_status (store
        (snd (analyzeAndTransformJob env_async ''j1'' ''make a video'' ''u1'' ''firegen-jobs/j1''
           world_created))
        ''firegen-jobs/j1'') = Some Failed
   \<and> map_option a_prompt (j_assisted (store
        (snd (analyzeAndTransformJob env_async ''j1'' ''make a video'' ''u1'' ''firegen-jobs/j1''
           world_created))
        ''firegen-jobs/j1'')) = Some ''make a video''
   \<and> assistedRequest env_thrown ''make a video'' ''j1'' = Inl (Thrown (Some ''quota exceeded''))
   \<and> \<not> is_Error (Thrown (Some ''quota exceeded''))
   \<and> new_events world_created
        (snd (analyzeAndTransformJob env_thrown ''j1'' ''make a video'' ''u1'' ''firegen-jobs/j1''
           world_created)) =
        [EvAnalyze ''make a video'' ''j1'', EvRejected ''firegen-jobs/j1'' ''error/details'']
   \<and> store (snd (analyzeAndTransformJob env_thrown ''j1'' ''make a video'' ''u1''
        ''firegen-jobs/j1'' world_created)) ''firegen-jobs/j1'' = job_veo"
proof -
  have h: "assistedRequest env_async ''make a video'' ''j1'' =
      Inl (JsError ''Error'' ''model call failed'')"
    by (simp add: env_async_def)
  have e: "is_Error (JsError ''Error'' ''model call failed'')"
    by simp
  have h': "assistedRequest env_thrown ''make a video'' ''j1'' =
      Inl (Thrown (Some ''quota exceeded''))"
    by (simp add: env_thrown_def env_async_def)
  have e': "\<not> is_Error (Thrown (Some ''quota exceeded''))"
    by simp
  have old: "store world_created ''firegen-jobs/j1'' = job_veo"
    by (simp add: world_created_def world0_def)
  from analyze_failure_write [OF h, of "''u1''" "''firegen-jobs/j1''" world_created] e
  have p: "length (new_events world_created
        (snd (analyzeAndTransformJob env_async ''j1'' ''make a video'' ''u1'' ''firegen-jobs/j1''
           world_created))) = 2
     \<and> j_status (store
        (snd (analyzeAndTransformJob env_async ''j1'' ''make a video'' ''u1'' ''firegen-jobs/j1''
           world_created))
        ''firegen-jobs/j1'') = Some Failed
     \<and> map_option a_prompt (j_assisted (store
        (snd (analyzeAndTransformJob env_async ''j1'' ''make a video'' ''u1'' ''firegen-jobs/j1''
           world_created))
        ''firegen-jobs/j1'')) = Some ''make a video''"
    by auto
  from analyze_failure_write [OF h', of "''u1''" "''firegen-jobs/j1''" world_created] e' old
  have q: "new_events world_created
        (snd (analyzeAndTransformJob env_thrown ''j1'' ''make a video'' ''u1'' ''firegen-jobs/j1''
           world_created)) =
        [EvAnalyze ''make a video'' ''j1'', EvRejected ''firegen-jobs/j1'' ''error/details'']
     \<and> store (snd (analyzeAndTransformJob env_thrown ''j1'' ''make a video'' ''u1''
        ''firegen-jobs/j1'' world_created)) ''firegen-jobs/j1'' = job_veo"
    by auto
  from h e p h' e' q show ?thesis by blast
qed

subsection \<open>C7: files of a synchronous completion\<close>

text \<open>
  Claim C7 says that every synchronous completion ends in a success write whose
  \<^verbatim>\<open>files\<close> value is a one-element array exactly when the output carries a storage
  URI and is absent when the output is text-only. For an output with a storage URI
  the code does so (when signing does not throw): the one success write carries one
  entry, named \<^verbatim>\<open>file0\<close> followed by the inferred extension, with the storage URI
  and, in \<^verbatim>\<open>https\<close>, what \<^verbatim>\<open>generateSignedUrl\<close> returned for that URI (the
  empty string if it returned nothing); the signing call precedes the write. The
  extension is the suffix of the URI after its last dot when that suffix is letters
  and digits, and otherwise the one listed for the media type. For an output without
  a storage URI the code passes \<^verbatim>\<open>files: undefined\<close> to \<^verbatim>\<open>update\<close>: the
  database client rejects the call, no success write lands, and the catch block writes
  the job as \<^verbatim>\<open>failed\<close> with \<^verbatim>\<open>START_FAILED\<close>.
\<close>

theorem startJob_sync_files:
  assumes "isValidModelId en (j_model job)"
    and "adapter_start en (j_model job) (j_request job) jobId = Inr res"
    and "\<not> truthy_str (sr_operationName res)" and "sr_output res = Some out"
  shows "(truthy_str (out_uri out) \<and> generateSignedUrl en (the (out_uri out)) = Inr surl \<longrightarrow>
            new_events w (startJob en jobId job w) =
              [EvUpdate (''firegen-jobs/'' @ jobId)
                 [WStatus Starting, WUpdatedAt (clock en (tick w))],
               EvStart (j_model job) (j_request job) jobId,
               EvSign (the (out_uri out)),
               EvUpdate (''firegen-jobs/'' @ jobId)
                 [WStatus Succeeded,
                  WResponse (if truthy_json (sr_rawResponse res) then the (sr_rawResponse res)
                             else JObj []),
                  WFiles [\<lparr>f_name = ''file0'' @ getFileExtension (out_uri out) (out_mimeType out),
                           f_gs = the (out_uri out),
                           f_https = (if truthy_str surl then the surl else ''''),
                           f_mimeType = (if truthy_str (out_mimeType out) then out_mimeType out
                                         else None),
                           f_size = out_size out\<rparr>],
                  WUpdatedAt (clock en (Suc (tick w)))]])
       \<and> (\<not> truthy_str (out_uri out) \<longrightarrow>
            new_events w (startJob en jobId job w) =
              [EvUpdate (''firegen-jobs/'' @ jobId)
                 [WStatus Starting, WUpdatedAt (clock en (tick w))],
               EvStart (j_model job) (j_request job) jobId,
               EvRejected (''firegen-jobs/'' @ jobId) ''files'',
               EvUpdate (''firegen-jobs/'' @ jobId)
                 [WStatus Failed,
                  WError \<lparr>e_code = ''START_FAILED'',
                          e_message = reject_message en (''firegen-jobs/'' @ jobId) ''files'',
                          e_details = None\<rparr>,
                  WUpdatedAt (clock en (Suc (Suc (tick w))))]]
          \<and> j_status (store (startJob en jobId job w) (''firegen-jobs/'' @ jobId)) = Some Failed
          \<and> j_response (store (startJob en jobId job w) (''firegen-jobs/'' @ jobId)) =
              j_response (store w (''firegen-jobs/'' @ jobId))
          \<and> j_files (store (startJob en jobId job w) (''firegen-jobs/'' @ jobId)) =
              j_files (store w (''firegen-jobs/'' @ jobId)))
       \<and> (e \<noteq> [] \<and> list_all is_alnum e \<longrightarrow>
            getFileExtension (Some (b @ ''.'' @ e)) m = ''.'' @ e)
       \<and> (regex_ext u = None \<longrightarrow>
            getFileExtension (Some u) (Some ''video/mp4'') = ''.mp4''
          \<and> getFileExtension (Some u) (Some ''image/png'') = ''.png''
          \<and> getFileExtension (Some u) (Some ''image/jpeg'') = ''.jpg''
          \<and> getFileExtension (Some u) (Some ''audio/wav'') = ''.wav''
          \<and> getFileExtension (Some u) (Some ''audio/mpeg'') = ''.mp3''
          \<and> getFileExtension (Some u) None = '''')"
proof (intro conjI impI)
  assume a: "truthy_str (out_uri out) \<and> generateSignedUrl en (the (out_uri out)) = Inr surl"
  then have t: "truthy_str (out_uri out)"
    and s: "generateSignedUrl en (the (out_uri out)) = Inr surl"
    by simp_all
  from startJob_media_trace [OF assms t s, of w]
  show "new_events w (startJob en jobId job w) =
              [EvUpdate (''firegen-jobs/'' @ jobId)
                 [WStatus Starting, WUpdatedAt (clock en (tick w))],
               EvStart (j_model job) (j_request job) jobId,
               EvSign (the (out_uri out)),
               EvUpdate (''firegen-jobs/'' @ jobId)
                 [WStatus Succeeded,
                  WResponse (if truthy_json (sr_rawResponse res) then the (sr_rawResponse res)
                             else JObj []),
                  WFiles [\<lparr>f_name = ''file0'' @ getFileExtension (out_uri out) (out_mimeType out),
                           f_gs = the (out_uri out),
                           f_https = (if truthy_str surl then the surl else ''''),
                           f_mimeType = (if truthy_str (out_mimeType out) then out_mimeType out
                                         else None),
                           f_size = out_size out\<rparr>],
                  WUpdatedAt (clock en (Suc (tick w)))]]"
    by (simp add: new_events_def)
next
  assume n: "\<not> truthy_str (out_uri out)"
  from startJob_no_media_trace [OF assms n, of w]
  show "new_events w (startJob en jobId job w) =
              [EvUpdate (''firegen-jobs/'' @ jobId)
                 [WStatus Starting, WUpdatedAt (clock en (tick w))],
               EvStart (j_model job) (j_request job) jobId,
               EvRejected (''firegen-jobs/'' @ jobId) ''files'',
               EvUpdate (''firegen-jobs/'' @ jobId)
                 [WStatus Failed,
                  WError \<lparr>e_code = ''START_FAILED'',
                          e_message = reject_message en (''firegen-jobs/'' @ jobId) ''files'',
                          e_details = None\<rparr>,
                  WUpdatedAt (clock en (Suc (Suc (tick w))))]]"
    by (simp add: new_events_def)
  from startJob_no_media_store [OF assms n, of w]
  show "j_status (store (startJob en jobId job w) (''firegen-jobs/'' @ jobId)) = Some Failed"
    by simp
  from startJob_no_media_store [OF assms n, of w]
  show "j_response (store (startJob en jobId job w) (''firegen-jobs/'' @ jobId)) =
              j_response (store w (''firegen-jobs/'' @ jobId))"
    by simp
  from startJob_no_media_store [OF assms n, of w]
  show "j_files (store (startJob en jobId job w) (''firegen-jobs/'' @ jobId)) =
              j_files (store w (''firegen-jobs/'' @ jobId))"
    by simp
next
  assume "e \<noteq> [] \<and> list_all is_alnum e"
  then show "getFileExtension (Some (b @ ''.'' @ e)) m = ''.'' @ e"
    using getFileExtension_uri [of e b m] by simp
next
  assume r: "regex_ext u = None"
  show "getFileExtension (Some u) (Some ''video/mp4'') = ''.mp4''"
    by (rule getFileExtension_mime(1) [OF r])
  show "getFileExtension (Some u) (Some ''image/png'') = ''.png''"
    by (rule getFileExtension_mime(2) [OF r])
  show "getFileExtension (Some u) (Some ''image/jpeg'') = ''.jpg''"
    by (rule getFileExtension_mime(3) [OF r])
  show "getFileExtension (Some u) (Some ''audio/wav'') = ''.wav''"
    by (rule getFileExtension_mime(4) [OF r])
  show "getFileExtension (Some u) (Some ''audio/mpeg'') = ''.mp3''"
    by (rule getFileExtension_mime(5) [OF r])
  show "getFileExtension (Some u) None = ''''"
    by (rule getFileExtension_mime(6) [OF r])
qed

theorem startJob_sync_files_witness:
  "isValidModelId env_mismatch (j_model job_veo)
   \<and> truthy_str (out_uri out_mismatch)
   \<and> new_events world_created (startJob env_mismatch ''j1'' job_veo world_created) =
     [EvUpdate ''firegen-jobs/j1'' [WStatus Starting, WUpdatedAt 1700000000000],
      EvStart (j_model job_veo) (j_request job_veo) ''j1'',
      EvSign ''gs://bucket/firegen-jobs/j1/image.png'',
      EvUpdate ''firegen-jobs/j1''
        [WStatus Succeeded,
         WResponse (JObj []),
         WFiles [\<lparr>f_name = ''file0.png'',
                  f_gs = ''gs://bucket/firegen-jobs/j1/image.png'',
                  f_https = ''https://signed.example/gs://bucket/firegen-jobs/j1/image.png'',
                  f_mimeType = Some ''image/jpeg'',
                  f_size = None\<rparr>],
         WUpdatedAt 1700000000001]]
   \<and> truthy_str (out_uri out_noext)
   \<and> regex_ext ''gs://bucket/firegen-jobs/j1/audio'' = None
   \<and> new_events world_created (startJob env_noext ''j1'' job_veo world_created) =
     [EvUpdate ''firegen-jobs/j1'' [WStatus Starting, WUpdatedAt 1700000000000],
      EvStart (j_model job_veo) (j_request job_veo) ''j1'',
      EvSign ''gs://bucket/firegen-jobs/j1/audio'',
      EvUpdate ''firegen-jobs/j1''
        [WStatus Succeeded,
         WResponse (JObj []),
         WFiles [\<lparr>f_name = ''file0.wav'',
                  f_gs = ''gs://bucket/firegen-jobs/j1/audio'',
                  f_https = ''https://signed.example/gs://bucket/firegen-jobs/j1/audio'',
                  f_mimeType = Some ''audio/wav'',
                  f_size = Some 2048\<rparr>],
         WUpdatedAt 1700000000001]]
   \<and> isValidModelId env_text (j_model job_veo)
   \<and> new_events world_created (startJob env_text ''j1'' job_veo world_created) =
     [EvUpdate ''firegen-jobs/j1'' [WStatus Starting, WUpdatedAt 1700000000000],
      EvStart (j_model job_veo) (j_request job_veo) ''j1'',
      EvRejected ''firegen-jobs/j1'' ''files'',
      EvUpdate ''firegen-jobs/j1''
        [WStatus Failed,
         WError \<lparr>e_code = ''START_FAILED'',
                 e_message = ''contains undefined in property firegen-jobs/j1/files'',
                 e_details = None\<rparr>,
         WUpdatedAt 1700000000002]]
   \<and> j_status (store (startJob env_text ''j1'' job_veo world_created) ''firegen-jobs/j1'')
       = Some Failed
   \<and> j_response (store (startJob env_text ''j1'' job_veo world_created) ''firegen-jobs/j1'')
       = None"
proof -
  have tk: "tick world_created = 0"
    by (simp add: world_created_def world0_def)
  have old: "j_response (store world_created ''firegen-jobs/j1'') = None"
    by (simp add: world_created_def world0_def job_veo_def empty_node_def)
  let ?r1 = "\<lparr>sr_operationName = None, sr_output = Some out_mismatch, sr_rawResponse = None\<rparr>"
  have v1: "isValidModelId env_mismatch (j_model job_veo)"
    by (simp add: env_mismatch_def env_async_def job_veo_def)
  have a1: "adapter_start env_mismatch (j_model job_veo) (j_request job_veo) ''j1'' = Inr ?r1"
    by (simp add: env_mismatch_def env_async_def)
  have n1: "\<not> truthy_str (sr_operationName ?r1)" and o1: "sr_output ?r1 = Some out_mismatch"
    by simp_all
  have u1: "truthy_str (out_uri out_mismatch)"
    by (simp add: out_mismatch_def)
  have s1: "generateSignedUrl env_mismatch (the (out_uri out_mismatch)) =
      Inr (Some ''https://signed.example/gs://bucket/firegen-jobs/j1/image.png'')"
    by (simp add: env_mismatch_def env_async_def out_mismatch_def)
  have al: "''png'' \<noteq> [] \<and> list_all is_alnum ''png''"
    by (simp add: is_alnum_def)
  from startJob_sync_files [OF v1 a1 n1 o1,
      of "Some ''https://signed.example/gs://bucket/firegen-jobs/j1/image.png''" world_created
        "''png''" "''gs://bucket/firegen-jobs/j1/image''" "Some ''image/jpeg''"] u1 s1 al tk
  have p1: "new_events world_created (startJob env_mismatch ''j1'' job_veo world_created) =
     [EvUpdate ''firegen-jobs/j1'' [WStatus Starting, WUpdatedAt 1700000000000],
      EvStart (j_model job_veo) (j_request job_veo) ''j1'',
      EvSign ''gs://bucket/firegen-jobs/j1/image.png'',
      EvUpdate ''firegen-jobs/j1''
        [WStatus Succeeded,
         WResponse (JObj []),
         WFiles [\<lparr>f_name = ''file0.png'',
                  f_gs = ''gs://bucket/firegen-jobs/j1/image.png'',
                  f_https = ''https://signed.example/gs://bucket/firegen-jobs/j1/image.png'',
                  f_mimeType = Some ''image/jpeg'',
                  f_size = None\<rparr>],
         WUpdatedAt 1700000000001]]"
    by (auto simp: env_mismatch_def env_async_def out_mismatch_def)
  let ?r2 = "\<lparr>sr_operationName = None, sr_output = Some out_noext, sr_rawResponse = None\<rparr>"
  have v2: "isValidModelId env_noext (j_model job_veo)"
    by (simp add: env_noext_def env_async_def job_veo_def)
  have a2: "adapter_start env_noext (j_model job_veo) (j_request job_veo) ''j1'' = Inr ?r2"
    by (simp add: env_noext_def env_async_def)
  have n2: "\<not> truthy_str (sr_operationName ?r2)" and o2: "sr_output ?r2 = Some out_noext"
    by simp_all
  have u2: "truthy_str (out_uri out_noext)"
    by (simp add: out_noext_def)
  have s2: "generateSignedUrl env_noext (the (out_uri out_noext)) =
      Inr (Some ''https://signed.example/gs://bucket/firegen-jobs/j1/audio'')"
    by (simp add: env_noext_def env_async_def out_noext_def)
  have x2: "regex_ext ''gs://bucket/firegen-jobs/j1/audio'' = None"
    by (simp add: is_alnum_def)
  from startJob_sync_files [OF v2 a2 n2 o2,
      of "Some ''https://signed.example/gs://bucket/firegen-jobs/j1/audio''" world_created
        _ _ _ "''gs://bucket/firegen-jobs/j1/audio''"] u2 s2 x2 tk
  have p2: "new_events world_created (startJob env_noext ''j1'' job_veo world_created) =
     [EvUpdate ''firegen-jobs/j1'' [WStatus Starting, WUpdatedAt 1700000000000],
      EvStart (j_model job_veo) (j_request job_veo) ''j1'',
      EvSign ''gs://bucket/firegen-jobs/j1/audio'',
      EvUpdate ''firegen-jobs/j1''
        [WStatus Succeeded,
         WResponse (JObj []),
         WFiles [\<lparr>f_name = ''file0.wav'',
                  f_gs = ''gs://bucket/firegen-jobs/j1/audio'',
                  f_https = ''https://signed.example/gs://bucket/firegen-jobs/j1/audio'',
                  f_mimeType = Some ''audio/wav'',
                  f_size = Some 2048\<rparr>],
         WUpdatedAt 1700000000001]]"
    by (auto simp: env_noext_def env_async_def out_noext_def)
  let ?out = "\<lparr>out_uri = None, out_mimeType = None, out_size = None,
               out_text = Some ''a short poem''\<rparr>"
  let ?r3 = "\<lparr>sr_operationName = None, sr_output = Some ?out,
              sr_rawResponse = Some (JObj [(''text'', JStr ''a short poem'')])\<rparr>"
  have v3: "isValidModelId env_text (j_model job_veo)"
    by (simp add: env_text_def env_async_def job_veo_def)
  have a3: "adapter_start env_text (j_model job_veo) (j_request job_veo) ''j1'' = Inr ?r3"
    by (simp add: env_text_def env_async_def)
  have n3: "\<not> truthy_str (sr_operationName ?r3)" and o3: "sr_output ?r3 = Some ?out"
    by simp_all
  have u3: "\<not> truthy_str (out_uri ?out)"
    by simp
  from startJob_sync_files [OF v3 a3 n3 o3, of _ world_created] u3 tk old
  have p3: "new_events world_created (startJob env_text ''j1'' job_veo world_created) =
     [EvUpdate ''firegen-jobs/j1'' [WStatus Starting, WUpdatedAt 1700000000000],
      EvStart (j_model job_veo) (j_request job_veo) ''j1'',
      EvRejected ''firegen-jobs/j1'' ''files'',
      EvUpdate ''firegen-jobs/j1''
        [WStatus Failed,
         WError \<lparr>e_code = ''START_FAILED'',
                 e_message = ''contains undefined in property firegen-jobs/j1/files'',
                 e_details = None\<rparr>,
         WUpdatedAt 1700000000002]]
     \<and> j_status (store (startJob env_text ''j1'' job_veo world_created) ''firegen-jobs/j1'')
       = Some Failed
     \<and> j_response (store (startJob env_text ''j1'' job_veo world_created) ''firegen-jobs/j1'')
       = None"
    by (auto simp: env_text_def env_async_def)
  from v1 u1 p1 u2 x2 p2 v3 p3 show ?thesis by blast
qed

subsection \<open>C8: the error-recording write of the poller\<close>

text \<open>
  Claim C8. For a running job whose stored attempt counter is \<open>a\<close>, the poller calls
  \<^verbatim>\<open>recordPollError(jobPath, a)\<close> after a transient poll failure. The call issues
  exactly one update, on four metadata paths: \<^verbatim>\<open>attempt\<close> becomes \<open>a + 1\<close>,
  \<^verbatim>\<open>nextPoll\<close> becomes the clock reading plus \<open>POLL_INTERVAL_MS\<close>, and
  \<^verbatim>\<open>lastError\<close> and \<^verbatim>\<open>updatedAt\<close> become the clock reading (the object
  literal reads \<^verbatim>\<open>Date.now()\<close> once per field, in this order). The status and
  every other field of the node, and every other node, are unchanged.
\<close>

theorem recordPollError_frame:
  assumes "m_attempt (j_metadata (store w p)) = Some a"
  shows "store (recordPollError en p a w) =
           (store w)(p := (store w p)\<lparr>j_metadata := (j_metadata (store w p))
              \<lparr>m_attempt := Some (a + 1),
               m_nextPoll := Some (clock en (tick w) + POLL_INTERVAL_MS en),
               m_lastError := Some (clock en (tick w + 1)),
               m_updatedAt := Some (clock en (tick w + 2))\<rparr>\<rparr>)
         \<and> j_status (store (recordPollError en p a w) p) = j_status (store w p)
         \<and> new_events w (recordPollError en p a w) =
             [EvUpdate p [WAttempt (a + 1),
                          WNextPoll (clock en (tick w) + POLL_INTERVAL_MS en),
                          WLastError (clock en (tick w + 1)),
                          WUpdatedAt (clock en (tick w + 2))]]"
  by (simp add: recordPollError_def date_now_def apply_writes_def new_events_def)

theorem recordPollError_frame_witness:
  "m_attempt (j_metadata (store world_polling ''firegen-jobs/j1'')) = Some 3
   \<and> m_attempt (j_metadata (store (recordPollError env_async ''firegen-jobs/j1'' 3 world_polling)
         ''firegen-jobs/j1'')) = Some 4
   \<and> m_nextPoll (j_metadata (store (recordPollError env_async ''firegen-jobs/j1'' 3 world_polling)
         ''firegen-jobs/j1'')) = Some 1700000001000
   \<and> m_lastError (j_metadata (store (recordPollError env_async ''firegen-jobs/j1'' 3 world_polling)
         ''firegen-jobs/j1'')) = Some 1700000000001
   \<and> j_status (store (recordPollError env_async ''firegen-jobs/j1'' 3 world_polling)
         ''firegen-jobs/j1'') = Some Running"
proof -
  have h: "m_attempt (j_metadata (store world_polling ''firegen-jobs/j1'')) = Some 3"
    by (simp add: world_polling_def world0_def job_veo_def empty_node_def empty_metadata_def)
  have st: "j_status (store world_polling ''firegen-jobs/j1'') = Some Running"
    by (simp add: world_polling_def world0_def job_veo_def empty_node_def)
  have tk: "tick world_polling = 0"
    by (simp add: world_polling_def world0_def)
  from recordPollError_frame [OF h, of env_async] h st tk show ?thesis
    by (simp add: env_async_def)
qed

subsection \<open>C9: round trip of a storage reference\<close>

text \<open>
  Claim C9. Let a storage reference \<open>u\<close> of the form \<^verbatim>\<open>gs://bucket/path/name.ext\<close>
  be a word of the free text. Tagging replaces it by a placeholder \<open>p\<close> whose table
  entry is \<open>u\<close> itself, character for character, with the media type inferred from the
  extension of \<open>u\<close>; so in every final structured request that contains \<open>p\<close>,
  resolution puts the media reference \<open>u\<close> with that media type in its place.
  Resolving all placeholders of the tagged text gives back the words of the text. An
  extension \<^verbatim>\<open>jpg\<close> gives \<^verbatim>\<open>image/jpeg\<close> and \<^verbatim>\<open>png\<close> gives
  \<^verbatim>\<open>image/png\<close>.
\<close>

theorem tag_resolve_roundtrip:
  assumes "u \<in> set (split_words s)" and "is_gs_uri u"
  shows "(\<exists>p. Tag p \<in> set (fst (tagUrls s))
            \<and> resolvePlaceholder (snd (tagUrls s)) p = Some (u, inferMimeType u)
            \<and> (\<forall>r. contains (SPlaceholder p) r \<longrightarrow>
                   contains (SMedia u (inferMimeType u)) (resolveRequest (snd (tagUrls s)) r)))
       \<and> map (resolve_item (snd (tagUrls s))) (fst (tagUrls s)) = map Some (split_words s)
       \<and> (regex_ext u = Some ''jpg'' \<longrightarrow> inferMimeType u = Some ''image/jpeg'')
       \<and> (regex_ext u = Some ''png'' \<longrightarrow> inferMimeType u = Some ''image/png'')"
proof -
  from tagUrls_reference [OF assms] obtain p where
    p: "Tag p \<in> set (fst (tagUrls s))"
       "resolvePlaceholder (snd (tagUrls s)) p = Some (u, inferMimeType u)"
    by blast
  have c: "\<forall>r. contains (SPlaceholder p) r \<longrightarrow>
      contains (SMedia u (inferMimeType u)) (resolveRequest (snd (tagUrls s)) r)"
    using resolve_contains [OF p(2)] by blast
  have m: "map (resolve_item (snd (tagUrls s))) (fst (tagUrls s)) = map Some (split_words s)"
    unfolding tagUrls_def by (rule tag_words_roundtrip [OF table_ok_Nil])
  from p c m inferMimeType_jpg [of u] inferMimeType_png [of u] show ?thesis
    by blast
qed

theorem tag_resolve_roundtrip_witness:
  "''gs://bucket/path/name.jpg'' \<in> set (split_words prompt_two_refs)
   \<and> is_gs_uri ''gs://bucket/path/name.jpg''
   \<and> inferMimeType ''gs://bucket/path/name.jpg'' = Some ''image/jpeg''
   \<and> ''gs://bucket/other/name.png'' \<in> set (split_words prompt_two_refs)
   \<and> is_gs_uri ''gs://bucket/other/name.png''
   \<and> inferMimeType ''gs://bucket/other/name.png'' = Some ''image/png''
   \<and> map (resolve_item (snd (tagUrls prompt_two_refs))) (fst (tagUrls prompt_two_refs))
        = map Some (split_words prompt_two_refs)
   \<and> contains (SPlaceholder (Placeholder 1 (Some ''image/jpeg'')))
        (SField ''instances''
           (SList [SField ''image'' (SPlaceholder (Placeholder 1 (Some ''image/jpeg'')))]))
   \<and> contains (SMedia ''gs://bucket/path/name.jpg'' (Some ''image/jpeg''))
        (resolveRequest (snd (tagUrls prompt_two_refs))
           (SField ''instances''
              (SList [SField ''image'' (SPlaceholder (Placeholder 1 (Some ''image/jpeg'')))])))
   \<and> resolveRequest (snd (tagUrls prompt_two_refs))
        (SField ''referenceImages''
           (SList [SField ''image'' (SPlaceholder (Placeholder 1 (Some ''image/jpeg''))),
                   SField ''image'' (SPlaceholder (Placeholder 2 (Some ''image/png'')))]))
        = SField ''referenceImages''
           (SList [SField ''image'' (SMedia ''gs://bucket/path/name.jpg'' (Some ''image/jpeg'')),
                   SField ''image'' (SMedia ''gs://bucket/other/name.png'' (Some ''image/png''))])"
proof -
  let ?u = "''gs://bucket/path/name.jpg''"
  let ?v = "''gs://bucket/other/name.png''"
  let ?r = "SField ''instances''
      (SList [SField ''image'' (SPlaceholder (Placeholder 1 (Some ''image/jpeg'')))])"
  have w: "?u \<in> set (split_words prompt_two_refs)"
    by (simp add: split_prompt)
  have g: "is_gs_uri ?u"
    by (simp add: is_gs_uri_def)
  have e: "regex_ext ?u = Some ''jpg''"
    by (simp add: is_alnum_def)
  have w2: "?v \<in> set (split_words prompt_two_refs)"
    by (simp add: split_prompt)
  have g2: "is_gs_uri ?v"
    by (simp add: is_gs_uri_def)
  have e2: "regex_ext ?v = Some ''png''"
    by (simp add: is_alnum_def)
  from tag_resolve_roundtrip [OF w g] e
  have m: "inferMimeType ?u = Some ''image/jpeg''"
    and rt: "map (resolve_item (snd (tagUrls prompt_two_refs))) (fst (tagUrls prompt_two_refs))
        = map Some (split_words prompt_two_refs)"
    by blast+
  from tag_resolve_roundtrip [OF w2 g2] e2
  have m2: "inferMimeType ?v = Some ''image/png''"
    by blast
  from tag_resolve_roundtrip [OF w g] obtain p where
    p: "Tag p \<in> set (fst (tagUrls prompt_two_refs))"
       "resolvePlaceholder (snd (tagUrls prompt_two_refs)) p = Some (?u, inferMimeType ?u)"
       "\<forall>r. contains (SPlaceholder p) r \<longrightarrow>
          contains (SMedia ?u (inferMimeType ?u)) (resolveRequest (snd (tagUrls prompt_two_refs)) r)"
    by blast
  from p(1,2) have pe: "p = Placeholder 1 (Some ''image/jpeg'')"
    by (auto simp: tag_prompt)
  have c0: "contains (SPlaceholder (Placeholder 1 (Some ''image/jpeg''))) ?r"
    by simp
  from p(3) pe c0 m
  have c1: "contains (SMedia ?u (Some ''image/jpeg''))
      (resolveRequest (snd (tagUrls prompt_two_refs)) ?r)"
    by metis
  have r: "resolveRequest (snd (tagUrls prompt_two_refs))
        (SField ''referenceImages''
           (SList [SField ''image'' (SPlaceholder (Placeholder 1 (Some ''image/jpeg''))),
                   SField ''image'' (SPlaceholder (Placeholder 2 (Some ''image/png'')))]))
        = SField ''referenceImages''
           (SList [SField ''image'' (SMedia ''gs://bucket/path/name.jpg'' (Some ''image/jpeg'')),
                   SField ''image'' (SMedia ''gs://bucket/other/name.png'' (Some ''image/png''))])"
    by (simp add: tag_prompt)
  from w g m w2 g2 m2 rt c0 c1 r show ?thesis by blast
qed

subsection \<open>C10: expiry\<close>

text \<open>
  Claim C10, as stated, says that \<^verbatim>\<open>isJobExpired\<close> is true exactly when
  \<^verbatim>\<open>metadata.ttl\<close> is present and the current time is strictly greater. The guard
  \<^verbatim>\<open>!job.metadata?.ttl\<close> is a truthiness test, so a stored \<^verbatim>\<open>ttl\<close> of \<open>0\<close>
  counts as no deadline: at time \<open>1\<close> such a job has a \<^verbatim>\<open>ttl\<close>, the time is past
  it, and the function answers false.
\<close>

theorem isJobExpired_ttl_zero_counterexample:
  "m_ttl (j_metadata (empty_node\<lparr>j_status := Some Running,
        j_metadata := empty_metadata\<lparr>m_ttl := Some 0\<rparr>\<rparr>)) = Some 0
   \<and> (1::int) > 0
   \<and> \<not> isJobExpired 1 (empty_node\<lparr>j_status := Some Running,
        j_metadata := empty_metadata\<lparr>m_ttl := Some 0\<rparr>\<rparr>)"
  by (simp add: isJobExpired_def)

text \<open>
  Claim C10, amended. \<^verbatim>\<open>isJobExpired\<close> is true exactly when \<^verbatim>\<open>metadata.ttl\<close>
  is present and not zero and the current time is strictly greater than it; a job
  without \<^verbatim>\<open>metadata.ttl\<close> is never expired, whatever its status and the time.
\<close>

theorem isJobExpired_iff:
  "isJobExpired now job \<longleftrightarrow>
     (\<exists>t. m_ttl (j_metadata job) = Some t \<and> t \<noteq> 0 \<and> now > t)"
  by (cases "m_ttl (j_metadata job)") (auto simp: isJobExpired_def)

end
